theory Spec2Isabelle
  imports Complex_Main "HOL-Library.Multiset"
begin

section \<open>The operator dashboard: data preparation and derived metrics\<close>

text \<open>
  The program is one script, \<^verbatim>\<open>dashboard.py\<close>. It reads a CSV file into a pandas
  data frame (\<^verbatim>\<open>load_data\<close>), and derives from that frame the overview KPIs (lines
  51 to 54), the hourly means (\<^verbatim>\<open>df_hourly\<close>, line 46) and the alert counts
  (\<^verbatim>\<open>alert_conditions\<close>, lines 95 to 99) with the banners shown for them (lines 100
  to 104).

  The script's own code is calls into pandas, so the embedding gives each pandas
  operation it calls as a HOL function with the behaviour pandas 2 documents, and the
  script's lines as compositions of these, in the order the script has them. Two things
  that pandas leaves to other code are parameters: the conversion of one string to a
  time stamp, and the sorting algorithm.

  Conventions of the model:
  \<^item> numbers are exact reals: the rounding of 64-bit floating point is not modelled;
    the one special value the script can produce from real inputs, NaN, and the
    infinities of a division by zero are explicit constructors of \<open>float64\<close>;
  \<^item> a time stamp is an \<open>int\<close>, the nanoseconds since the epoch, as in a
    \<^verbatim>\<open>datetime64[ns]\<close> index without time zone; \<^verbatim>\<open>NaT\<close>, the time stamp that is
    missing, is \<open>None\<close>;
  \<^item> a cell of a string column is \<open>Some s\<close>, or \<open>None\<close> for the missing-value marker
    that \<^verbatim>\<open>read_csv\<close> puts for an empty field; every cell of a numeric column holds
    a number (a missing number is outside the model);
  \<^item> an exception is a value \<open>Inl e\<close> of type \<open>error + 'a\<close>.
\<close>

subsection \<open>Frames\<close>

text \<open>
  A column carries its dtype: \<^verbatim>\<open>float64\<close> (also standing for \<^verbatim>\<open>int64\<close>),
  \<^verbatim>\<open>bool\<close>, or \<^verbatim>\<open>object\<close>, which for a file read by \<^verbatim>\<open>read_csv\<close> means
  strings. The dtype decides what the reductions do, also on a column without rows.
\<close>

datatype column = Float64 "real list" | Boolean "bool list" | Object "string option list"

datatype axis = RangeIndex nat | DatetimeIndex "int option list"

record frame =
  index :: axis
  columns :: "(string \<times> column) list"

datatype error =
    KeyError string
  | ValueError
  | TypeError
  | ZeroDivisionError
  | AttributeError

datatype float64 = Val real | NaN | PosInf | NegInf

fun col_length :: "column \<Rightarrow> nat" where
  "col_length (Float64 xs) = length xs"
| "col_length (Boolean bs) = length bs"
| "col_length (Object ss) = length ss"

definition len :: "frame \<Rightarrow> nat" where
  "len df = (case index df of RangeIndex n \<Rightarrow> n | DatetimeIndex ts \<Rightarrow> length ts)"

text \<open>Every column of a pandas frame has one entry per row.\<close>

definition well_formed :: "frame \<Rightarrow> bool" where
  "well_formed df = list_all (\<lambda>nc. col_length (snd nc) = len df) (columns df)"

text \<open>
  \<^verbatim>\<open>df[key]\<close>: a missing label raises \<^verbatim>\<open>KeyError\<close>; a label that several columns
  carry selects all of them, as a frame.
\<close>

datatype selection = Series column | DataFrame "column list"

definition getitem :: "frame \<Rightarrow> string \<Rightarrow> error + selection" where
  "getitem df key =
     (let cs = map snd (filter (\<lambda>nc. fst nc = key) (columns df))
      in if cs = [] then Inl (KeyError key)
         else if length cs = 1 then Inr (Series (hd cs))
         else Inr (DataFrame cs))"

text \<open>\<^verbatim>\<open>df.rename(columns=m)\<close>: labels that \<open>m\<close> does not mention stay; nothing is checked.\<close>

definition rename :: "(string \<times> string) list \<Rightarrow> frame \<Rightarrow> frame" where
  "rename m df =
     df\<lparr>columns := map (\<lambda>nc. (case map_of m (fst nc) of Some n' \<Rightarrow> n' | None \<Rightarrow> fst nc, snd nc))
                        (columns df)\<rparr>"

subsection \<open>\<^verbatim>\<open>load_data\<close> (lines 17 to 31)\<close>

text \<open>
  \<^verbatim>\<open>pd.to_datetime\<close> with its default \<^verbatim>\<open>errors='raise'\<close>.
  \<^item> A cell that is missing, an empty string, or one of pandas' \<^verbatim>\<open>nat_strings\<close> is no
    error: its time stamp is \<^verbatim>\<open>NaT\<close>.
  \<^item> How any other element is converted (the guessed format, the date parser) is pandas'
    business and a parameter here: \<open>conv first x\<close> is the time stamp of the element
    \<open>x\<close> in a column whose first element that is not \<^verbatim>\<open>NaT\<close> is \<open>first\<close> (pandas
    guesses the format from that element), or \<open>None\<close> when \<open>x\<close> cannot be converted.
  \<^item> An element that cannot be converted raises a \<^verbatim>\<open>ValueError\<close>. (Whether its message
    names the element's position depends on the version of pandas; the model keeps none.)
  \<^item> A \<^verbatim>\<open>bool\<close> column is refused for its dtype, and a frame with a duplicated label
    cannot be assembled into dates.
\<close>

definition nat_strings :: "string list" where
  "nat_strings = [''NaT'', ''nat'', ''NAT'', ''nan'', ''NaN'', ''NAN'']"

definition is_nat :: "string option \<Rightarrow> bool" where
  "is_nat c = (case c of None \<Rightarrow> True | Some s \<Rightarrow> s = [] \<or> s \<in> set nat_strings)"

datatype scalar = Str string | Num real

text \<open>
  The cells of a string column as \<^verbatim>\<open>to_datetime\<close> sees them: \<open>None\<close> is a \<^verbatim>\<open>NaT\<close>
  to be.
\<close>

definition string_elements :: "string option list \<Rightarrow> scalar option list" where
  "string_elements cells = map (\<lambda>c. if is_nat c then None else map_option Str c) cells"

fun convert_all :: "(scalar \<Rightarrow> int option) \<Rightarrow> scalar option list \<Rightarrow> error + int option list" where
  "convert_all p [] = Inr []"
| "convert_all p (None # xs) =
     (case convert_all p xs of Inl e \<Rightarrow> Inl e | Inr ts \<Rightarrow> Inr (None # ts))"
| "convert_all p (Some x # xs) =
     (case p x of
        None \<Rightarrow> Inl ValueError
      | Some t \<Rightarrow> (case convert_all p xs of Inl e \<Rightarrow> Inl e | Inr ts \<Rightarrow> Inr (Some t # ts)))"

definition convert_listlike ::
  "(scalar \<Rightarrow> scalar \<Rightarrow> int option) \<Rightarrow> scalar option list \<Rightarrow> error + int option list" where
  "convert_listlike conv xs =
     (case List.find (\<lambda>x. x \<noteq> None) xs of
        Some (Some first) \<Rightarrow> convert_all (conv first) xs
      | _ \<Rightarrow> Inr (map (\<lambda>x. None) xs))"

fun to_datetime ::
  "(scalar \<Rightarrow> scalar \<Rightarrow> int option) \<Rightarrow> selection \<Rightarrow> error + int option list" where
  "to_datetime conv (Series (Object cells)) = convert_listlike conv (string_elements cells)"
| "to_datetime conv (Series (Float64 xs)) = convert_listlike conv (map (\<lambda>x. Some (Num x)) xs)"
| "to_datetime conv (Series (Boolean bs)) = Inl TypeError"
| "to_datetime conv (DataFrame cs) = Inl ValueError"

text \<open>
  \<^verbatim>\<open>sort_values\<close> computes the positions in sorted order and takes the rows at these
  positions. The sorting itself is numpy's \<^verbatim>\<open>argsort\<close> of the default kind,
  \<^verbatim>\<open>quicksort\<close>, which promises the positions of the keys in ascending order and no
  particular order among equal keys. It is a parameter here, \<open>kind\<close>, of which the
  statements assume this contract and nothing else.
\<close>

definition argsorts :: "(int list \<Rightarrow> nat list) \<Rightarrow> bool" where
  "argsorts kind \<longleftrightarrow>
     (\<forall>ks. mset (kind ks) = mset [0..<length ks] \<and> sorted (map (\<lambda>i. ks ! i) (kind ks)))"

text \<open>
  pandas sorts the time stamps that are there and puts the rows without one last
  (\<^verbatim>\<open>na_position='last'\<close>), in the order they had.
\<close>

definition nargsort :: "(int list \<Rightarrow> nat list) \<Rightarrow> int option list \<Rightarrow> nat list" where
  "nargsort kind ts =
     (let idx = [0..<length ts];
          non_nan_idx = filter (\<lambda>i. ts ! i \<noteq> None) idx;
          nan_idx = filter (\<lambda>i. ts ! i = None) idx;
          non_nans = map (\<lambda>i. the (ts ! i)) non_nan_idx
      in map (\<lambda>j. non_nan_idx ! j) (kind non_nans) @ nan_idx)"

text \<open>
  Taking rows by position. The positions are those of the key column, so they are
  within every column of a frame (whose columns all have one entry per row).
\<close>

fun take_col :: "nat list \<Rightarrow> column \<Rightarrow> column" where
  "take_col order (Float64 xs) = Float64 (map (\<lambda>i. xs ! i) order)"
| "take_col order (Boolean bs) = Boolean (map (\<lambda>i. bs ! i) order)"
| "take_col order (Object ss) = Object (map (\<lambda>i. ss ! i) order)"

definition take_rows :: "nat list \<Rightarrow> (string \<times> column) list \<Rightarrow> (string \<times> column) list" where
  "take_rows order cols = map (\<lambda>nc. (fst nc, take_col order (snd nc))) cols"

text \<open>
  Lines 20 and 21 in one step: \<^verbatim>\<open>df[key] = ts\<close>, then
  \<^verbatim>\<open>df.sort_values(key).set_index(key)\<close>. The converted column is the sort key,
  becomes the index and leaves the columns.
\<close>

definition assign_sort_set_index ::
  "(int list \<Rightarrow> nat list) \<Rightarrow> string \<Rightarrow> int option list \<Rightarrow> frame \<Rightarrow> frame" where
  "assign_sort_set_index kind key ts df =
     (let order = nargsort kind ts
      in \<lparr>index = DatetimeIndex (map (\<lambda>i. ts ! i) order),
          columns = take_rows order (filter (\<lambda>nc. fst nc \<noteq> key) (columns df))\<rparr>)"

text \<open>The static table of lines 22 to 30. The degree sign is its two bytes in UTF-8.\<close>

definition column_names :: "(string \<times> string) list" where
  "column_names =
     [(''Timestamp'', ''DateTime''),
      (''Vibration Level (mm/s)'', ''Vibration_Level''),
      (''Machine Speed (RPM)'', ''Machine_Speed''),
      (''Production Quality Score'', ''Production_Quality_Score''),
      (''Optimal Conditions'', ''Optimal_Conditions''),
      (''Energy Consumption (kWh)'', ''Energy_Consumption''),
      (''Temperature ('' @ [CHR 0xC2, CHR 0xB0] @ ''C)'', ''Temperature'')]"

text \<open>The argument \<open>csv\<close> is the frame that \<^verbatim>\<open>pd.read_csv('data.csv')\<close> returns.\<close>

definition load_data ::
  "(scalar \<Rightarrow> scalar \<Rightarrow> int option) \<Rightarrow> (int list \<Rightarrow> nat list) \<Rightarrow> frame \<Rightarrow> error + frame" where
  "load_data conv kind csv =
     (let df = rename [(''Timestamp'', ''DateTime'')] csv
      in case getitem df ''DateTime'' of
           Inl e \<Rightarrow> Inl e
         | Inr sel \<Rightarrow>
             (case to_datetime conv sel of
                Inl e \<Rightarrow> Inl e
              | Inr ts \<Rightarrow> Inr (rename column_names (assign_sort_set_index kind ''DateTime'' ts df))))"

subsection \<open>Sidebar (lines 36 to 39)\<close>

text \<open>The time stamps of an index that are there.\<close>

definition stamps :: "int option list \<Rightarrow> int list" where
  "stamps ts = map the (filter (\<lambda>t. t \<noteq> None) ts)"

text \<open>
  The record count and the date range. \<^verbatim>\<open>df.index.min()\<close> and \<^verbatim>\<open>max()\<close> skip
  \<^verbatim>\<open>NaT\<close> and are \<^verbatim>\<open>NaT\<close> when no time stamp is left, which \<^verbatim>\<open>strftime\<close> refuses
  with a \<^verbatim>\<open>ValueError\<close>. The two dates are given as time stamps; their format is not
  modelled. The minimum of an index that is not of time stamps has no \<^verbatim>\<open>strftime\<close>.
\<close>

definition sidebar :: "frame \<Rightarrow> error + nat \<times> int \<times> int" where
  "sidebar df =
     (case index df of
        RangeIndex n \<Rightarrow> Inl AttributeError
      | DatetimeIndex ts \<Rightarrow>
          if stamps ts = [] then Inl ValueError
          else Inr (length ts, Min (set (stamps ts)), Max (set (stamps ts))))"

subsection \<open>Overview KPIs (lines 51 to 54)\<close>

text \<open>
  The four metrics are given as functions of the table, as the specification has them.
  In the script they come after the sidebar, so for a table on which the sidebar raises
  they are not reached.
\<close>

text \<open>
  \<^verbatim>\<open>Series.mean()\<close>: the sum over the count, NaN for a series without entries
  (whatever its dtype); a \<^verbatim>\<open>bool\<close> counts as 0 or 1; strings cannot be averaged.
\<close>

definition count_true :: "bool list \<Rightarrow> nat" where
  "count_true bs = length (filter (\<lambda>b. b) bs)"

fun mean :: "column \<Rightarrow> error + float64" where
  "mean (Float64 xs) = Inr (if xs = [] then NaN else Val (sum_list xs / real (length xs)))"
| "mean (Boolean bs) = Inr (if bs = [] then NaN else Val (real (count_true bs) / real (length bs)))"
| "mean (Object ss) = (if ss = [] then Inr NaN else Inl TypeError)"

text \<open>
  \<^verbatim>\<open>df[name].mean()\<close>, as lines 51 to 53 have it. Were the label duplicated, the mean
  would be a series and the format of the metric would refuse it.
\<close>

definition column_mean :: "frame \<Rightarrow> string \<Rightarrow> error + float64" where
  "column_mean df name =
     (case getitem df name of
        Inl e \<Rightarrow> Inl e
      | Inr (Series c) \<Rightarrow> mean c
      | Inr (DataFrame cs) \<Rightarrow> Inl TypeError)"

definition avg_quality :: "frame \<Rightarrow> error + float64" where
  "avg_quality df = column_mean df ''Production_Quality_Score''"

definition avg_speed :: "frame \<Rightarrow> error + float64" where
  "avg_speed df = column_mean df ''Machine_Speed''"

definition avg_energy :: "frame \<Rightarrow> error + float64" where
  "avg_energy df = column_mean df ''Energy_Consumption''"

text \<open>
  Division of a numpy scalar by the row count: numpy does not raise on a zero divisor,
  it gives NaN for \<open>0 / 0\<close> and an infinity otherwise.
\<close>

definition np_divide :: "real \<Rightarrow> nat \<Rightarrow> float64" where
  "np_divide s n =
     (if n = 0 then (if s = 0 then NaN else if 0 < s then PosInf else NegInf)
      else Val (s / real n))"

fun np_multiply :: "float64 \<Rightarrow> real \<Rightarrow> float64" where
  "np_multiply (Val v) k = Val (v * k)"
| "np_multiply NaN k = NaN"
| "np_multiply PosInf k = (if 0 < k then PosInf else if k < 0 then NegInf else NaN)"
| "np_multiply NegInf k = (if 0 < k then NegInf else if k < 0 then PosInf else NaN)"

text \<open>
  Line 54: \<^verbatim>\<open>df['Optimal_Conditions'].sum() / len(df) * 100\<close>. The sum of a
  \<^verbatim>\<open>bool\<close> column counts its true entries. The sum of an \<^verbatim>\<open>object\<close> column
  without entries is the Python integer 0, whose division by zero raises; with entries
  it is a string, which cannot be divided.
\<close>

fun sum_over_len_pct :: "column \<Rightarrow> nat \<Rightarrow> error + float64" where
  "sum_over_len_pct (Float64 xs) n = Inr (np_multiply (np_divide (sum_list xs) n) 100)"
| "sum_over_len_pct (Boolean bs) n = Inr (np_multiply (np_divide (real (count_true bs)) n) 100)"
| "sum_over_len_pct (Object ss) n =
     (if ss \<noteq> [] then Inl TypeError
      else if n = 0 then Inl ZeroDivisionError
      else Inr (Val 0))"

definition optimal_pct :: "frame \<Rightarrow> error + float64" where
  "optimal_pct df =
     (case getitem df ''Optimal_Conditions'' of
        Inl e \<Rightarrow> Inl e
      | Inr (Series c) \<Rightarrow> sum_over_len_pct c (len df)
      | Inr (DataFrame cs) \<Rightarrow> Inl TypeError)"

text \<open>The four metrics in the order the script computes them; the first exception ends it.\<close>

record metrics =
  m_avg_quality :: float64
  m_avg_speed :: float64
  m_avg_energy :: float64
  m_optimal_pct :: float64

definition summary_metrics :: "frame \<Rightarrow> error + metrics" where
  "summary_metrics df =
     (case avg_quality df of Inl e \<Rightarrow> Inl e | Inr q \<Rightarrow>
     (case avg_speed df of Inl e \<Rightarrow> Inl e | Inr s \<Rightarrow>
     (case avg_energy df of Inl e \<Rightarrow> Inl e | Inr g \<Rightarrow>
     (case optimal_pct df of Inl e \<Rightarrow> Inl e | Inr p \<Rightarrow>
        Inr \<lparr>m_avg_quality = q, m_avg_speed = s, m_avg_energy = g, m_optimal_pct = p\<rparr>))))"

subsection \<open>Hourly means (line 46)\<close>

definition hour :: int where
  "hour = 3600000000000"

text \<open>
  \<^verbatim>\<open>resample('1h')\<close> on a \<^verbatim>\<open>DatetimeIndex\<close>: the bins are closed on the left and
  labelled by their left edge; the first edge is the earliest time stamp rounded down to
  the hour, the last edge is the hour after the one the latest time stamp lies in. The
  argument of \<open>bin_edges\<close> and \<open>bin_labels\<close> is the time stamps that are there.
\<close>

definition bin_edges :: "int list \<Rightarrow> int \<times> int" where
  "bin_edges ts = (Min (set ts) div hour * hour, Max (set ts) div hour * hour + hour)"

definition bin_labels :: "int list \<Rightarrow> int list" where
  "bin_labels ts =
     (let (first, last) = bin_edges ts
      in map (\<lambda>k. first + int k * hour) [0..<nat ((last - first) div hour)])"

text \<open>The rows of a bin; a row without a time stamp is in no bin.\<close>

definition in_bin :: "int \<Rightarrow> int option \<Rightarrow> bool" where
  "in_bin lo t = (case t of None \<Rightarrow> False | Some u \<Rightarrow> lo \<le> u \<and> u < lo + hour)"

definition bin_rows :: "int option list \<Rightarrow> 'a list \<Rightarrow> int \<Rightarrow> 'a list" where
  "bin_rows ts xs lo = map snd (filter (\<lambda>tx. in_bin lo (fst tx)) (zip ts xs))"

text \<open>\<^verbatim>\<open>.mean()\<close> of one bin: a bin without rows has the mean NaN.\<close>

definition bin_mean :: "real list \<Rightarrow> float64" where
  "bin_mean vs = (if vs = [] then NaN else Val (sum_list vs / real (length vs)))"

fun resample_mean :: "int option list \<Rightarrow> int list \<Rightarrow> column \<Rightarrow> error + float64 list" where
  "resample_mean ts labels (Float64 xs) = Inr (map (\<lambda>lo. bin_mean (bin_rows ts xs lo)) labels)"
| "resample_mean ts labels (Boolean bs) =
     Inr (map (\<lambda>lo. bin_mean (map of_bool (bin_rows ts bs lo))) labels)"
| "resample_mean ts labels (Object ss) = Inl TypeError"

fun resample_columns ::
  "int option list \<Rightarrow> int list \<Rightarrow> (string \<times> column) list \<Rightarrow> error + (string \<times> float64 list) list" where
  "resample_columns ts labels [] = Inr []"
| "resample_columns ts labels (nc # ncs) =
     (case resample_mean ts labels (snd nc) of
        Inl e \<Rightarrow> Inl e
      | Inr vs \<Rightarrow>
          (case resample_columns ts labels ncs of
             Inl e \<Rightarrow> Inl e
           | Inr rest \<Rightarrow> Inr ((fst nc, vs) # rest)))"

record hourly =
  h_index :: "int list"
  h_columns :: "(string \<times> float64 list) list"

text \<open>
  \<^verbatim>\<open>df_dashboard.resample('1h').mean()\<close>. Resampling needs a time index; a frame
  without rows is returned as it is (no bins); rows without a time stamp are left out,
  and when no row has one the range of the bins cannot be made; otherwise every column
  must be numeric.
\<close>

definition df_hourly :: "frame \<Rightarrow> error + hourly" where
  "df_hourly df =
     (case index df of
        RangeIndex n \<Rightarrow> Inl TypeError
      | DatetimeIndex ts \<Rightarrow>
          if ts = [] then Inr \<lparr>h_index = [], h_columns = map (\<lambda>nc. (fst nc, [])) (columns df)\<rparr>
          else if stamps ts = [] then Inl ValueError
          else (case resample_columns ts (bin_labels (stamps ts)) (columns df) of
                  Inl e \<Rightarrow> Inl e
                | Inr cs \<Rightarrow> Inr \<lparr>h_index = bin_labels (stamps ts), h_columns = cs\<rparr>))"

subsection \<open>Quick alerts (lines 95 to 104)\<close>

text \<open>
  \<^verbatim>\<open>Series.quantile(q)\<close> with the default \<^verbatim>\<open>interpolation='linear'\<close>, which is
  numpy's percentile: the virtual position \<open>q * (n - 1)\<close> in the sorted values, the
  entries at its floor and at the next position (the last one at most), and the
  linear interpolation \<open>a + (b - a) * t\<close> of the two.
\<close>

definition percentile_linear :: "real list \<Rightarrow> real \<Rightarrow> real" where
  "percentile_linear xs q =
     (let s = sort xs;
          n = length xs;
          virtual_index = q * real (n - 1);
          previous = nat \<lfloor>virtual_index\<rfloor>;
          next = min (previous + 1) (n - 1);
          gamma = virtual_index - real previous
      in s ! previous + (s ! next - s ! previous) * gamma)"

text \<open>
  \<^verbatim>\<open>quantile\<close> first refuses a \<open>q\<close> outside \<open>[0, 1]\<close>, so the positions above are
  within the sorted values. A series without entries has the quantile NaN; the quantile
  of a non-empty \<^verbatim>\<open>bool\<close> or string column raises (numpy cannot subtract such values).
\<close>

fun quantile :: "column \<Rightarrow> real \<Rightarrow> error + float64" where
  "quantile (Float64 xs) q =
     (if q < 0 \<or> 1 < q then Inl ValueError
      else Inr (if xs = [] then NaN else Val (percentile_linear xs q)))"
| "quantile (Boolean bs) q =
     (if q < 0 \<or> 1 < q then Inl ValueError
      else if bs = [] then Inr NaN else Inl TypeError)"
| "quantile (Object ss) q =
     (if q < 0 \<or> 1 < q then Inl ValueError
      else if ss = [] then Inr NaN else Inl TypeError)"

text \<open>The comparisons \<^verbatim>\<open>x > t\<close> and \<^verbatim>\<open>x < t\<close> of a number with a threshold; with NaN both are false.\<close>

fun gt :: "real \<Rightarrow> float64 \<Rightarrow> bool" where
  "gt x (Val t) = (t < x)"
| "gt x NaN = False"
| "gt x PosInf = False"
| "gt x NegInf = True"

fun lt :: "real \<Rightarrow> float64 \<Rightarrow> bool" where
  "lt x (Val t) = (x < t)"
| "lt x NaN = False"
| "lt x PosInf = True"
| "lt x NegInf = False"

text \<open>\<^verbatim>\<open>(series cmp t).sum()\<close>: the number of entries for which the comparison holds.\<close>

fun count_where :: "(real \<Rightarrow> float64 \<Rightarrow> bool) \<Rightarrow> column \<Rightarrow> float64 \<Rightarrow> error + nat" where
  "count_where cmp (Float64 xs) t = Inr (length (filter (\<lambda>x. cmp x t) xs))"
| "count_where cmp (Boolean bs) t = Inr (length (filter (\<lambda>b. cmp (of_bool b) t) bs))"
| "count_where cmp (Object ss) t = (if ss = [] then Inr 0 else Inl TypeError)"

text \<open>
  One entry of the dictionary: \<^verbatim>\<open>(df[name] cmp df[name].quantile(q)).sum()\<close>. With a
  duplicated label the entry is not a number and the loop over the alerts raises.
\<close>

definition alert_count :: "(real \<Rightarrow> float64 \<Rightarrow> bool) \<Rightarrow> real \<Rightarrow> frame \<Rightarrow> string \<Rightarrow> error + nat" where
  "alert_count cmp q df name =
     (case getitem df name of
        Inl e \<Rightarrow> Inl e
      | Inr (DataFrame cs) \<Rightarrow> Inl ValueError
      | Inr (Series c) \<Rightarrow>
          (case quantile c q of Inl e \<Rightarrow> Inl e | Inr t \<Rightarrow> count_where cmp c t))"

definition alert_conditions :: "frame \<Rightarrow> error + (string \<times> nat) list" where
  "alert_conditions df =
     (case alert_count gt (95 / 100) df ''Vibration_Level'' of Inl e \<Rightarrow> Inl e | Inr v \<Rightarrow>
     (case alert_count lt (5 / 100) df ''Production_Quality_Score'' of Inl e \<Rightarrow> Inl e | Inr q \<Rightarrow>
     (case alert_count gt (95 / 100) df ''Energy_Consumption'' of Inl e \<Rightarrow> Inl e | Inr g \<Rightarrow>
        Inr [(''High Vibration'', v), (''Low Quality'', q), (''High Energy'', g)])))"

text \<open>Lines 100 to 104: an error banner with the count, or the success banner.\<close>

datatype banner = st_error string nat | st_success string

definition alert_banner :: "string \<times> nat \<Rightarrow> banner" where
  "alert_banner ac = (if 0 < snd ac then st_error (fst ac) (snd ac) else st_success (fst ac))"

subsection \<open>Notions used in the statements\<close>

text \<open>The dtypes whose reductions give numbers: \<^verbatim>\<open>float64\<close> and \<^verbatim>\<open>bool\<close>.\<close>

fun numeric :: "column \<Rightarrow> bool" where
  "numeric (Float64 xs) = True"
| "numeric (Boolean bs) = True"
| "numeric (Object ss) = False"

text \<open>
  The flag of the data model is boolean-like: a \<^verbatim>\<open>bool\<close> column, or a numeric column of
  zeros and ones. \<open>flags c\<close> reads such a column as truth values.
\<close>

fun flags :: "column \<Rightarrow> bool list option" where
  "flags (Boolean bs) = Some bs"
| "flags (Float64 xs) = (if list_all (\<lambda>x. x = 0 \<or> x = 1) xs then Some (map (\<lambda>x. x = 1) xs) else None)"
| "flags (Object ss) = None"

text \<open>
  The alert summary in the words of the specification. The percentile is the standard
  estimator by linear interpolation between order statistics: with \<open>h = (n - 1) p + 1\<close>,
  it lies between the order statistics of rank \<open>\<lfloor>h\<rfloor>\<close> and \<open>\<lceil>h\<rceil>\<close> (counted from 1),
  at the fraction \<open>h - \<lfloor>h\<rfloor>\<close>. Each count is taken over all rows, against the
  percentile of the same column.
\<close>

definition order_statistic :: "real list \<Rightarrow> nat \<Rightarrow> real" where
  "order_statistic xs k = sort xs ! (k - 1)"

definition spec_percentile :: "real list \<Rightarrow> real \<Rightarrow> real" where
  "spec_percentile xs p =
     (let h = (real (length xs) - 1) * p + 1
      in order_statistic xs (nat \<lfloor>h\<rfloor>) +
         (h - real_of_int \<lfloor>h\<rfloor>) * (order_statistic xs (nat \<lceil>h\<rceil>) - order_statistic xs (nat \<lfloor>h\<rfloor>)))"

definition spec_alert_summary :: "real list \<Rightarrow> real list \<Rightarrow> real list \<Rightarrow> (string \<times> nat) list" where
  "spec_alert_summary vibration_level production_quality_score energy_consumption =
     [(''High Vibration'',
         length (filter (\<lambda>x. spec_percentile vibration_level (95 / 100) < x) vibration_level)),
      (''Low Quality'',
         length (filter (\<lambda>x. x < spec_percentile production_quality_score (5 / 100))
                   production_quality_score)),
      (''High Energy'',
         length (filter (\<lambda>x. spec_percentile energy_consumption (95 / 100) < x) energy_consumption))]"

text \<open>
  The sort of line 21 applied to a loaded table again: the time stamps of its index are
  the key, \<^verbatim>\<open>sort_values\<close> sorts by them and they are the index again. The script does
  not do this; the statement about sorting a loaded table again does.
\<close>

definition sort_values_again :: "(int list \<Rightarrow> nat list) \<Rightarrow> frame \<Rightarrow> frame" where
  "sort_values_again kind df =
     (case index df of
        RangeIndex n \<Rightarrow> df
      | DatetimeIndex ts \<Rightarrow>
          (let order = nargsort kind ts
           in \<lparr>index = DatetimeIndex (map (\<lambda>i. ts ! i) order),
               columns = take_rows order (columns df)\<rparr>))"

text \<open>
  The cells of a time stamp column that make \<^verbatim>\<open>to_datetime\<close> raise: those that are
  not \<^verbatim>\<open>NaT\<close> to be and that the conversion refuses.
\<close>

definition first_non_null :: "scalar option list \<Rightarrow> scalar" where
  "first_non_null xs = (case List.find (\<lambda>x. x \<noteq> None) xs of Some (Some first) \<Rightarrow> first | _ \<Rightarrow> Str [])"

definition unconvertible :: "(scalar \<Rightarrow> scalar \<Rightarrow> int option) \<Rightarrow> string option list \<Rightarrow> string option \<Rightarrow> bool" where
  "unconvertible conv cells c =
     (case c of
        None \<Rightarrow> False
      | Some s \<Rightarrow> \<not> is_nat c \<and> conv (first_non_null (string_elements cells)) (Str s) = None)"

subsection \<open>Example inputs\<close>

text \<open>
  A stand-in for pandas' date parser in the examples: it converts two date strings and
  nothing else.
\<close>

definition example_conv :: "scalar \<Rightarrow> scalar \<Rightarrow> int option" where
  "example_conv first x =
     (case x of
        Str s \<Rightarrow> map_of [(''2024-01-01 00:30:00'', 1704069000000000000),
                          (''2024-01-01 02:15:00'', 1704075300000000000)] s
      | Num r \<Rightarrow> None)"

text \<open>
  Two sorts that meet the contract of \<open>kind\<close>: an insertion sort from the last position
  down, which leaves equal keys in their order, and the same from the first position
  up, which leaves them in the reverse order.
\<close>

definition insertion_argsort :: "int list \<Rightarrow> nat list" where
  "insertion_argsort ks = sort_key (\<lambda>i. ks ! i) [0..<length ks]"

definition reversed_ties_argsort :: "int list \<Rightarrow> nat list" where
  "reversed_ties_argsort ks = sort_key (\<lambda>i. ks ! i) (rev [0..<length ks])"

text \<open>
  What \<^verbatim>\<open>read_csv\<close> returns for a file that has the header line only (every column has
  the dtype \<^verbatim>\<open>object\<close>), and the table \<^verbatim>\<open>load_data\<close> makes of it.
\<close>

definition header_only_csv :: frame where
  "header_only_csv =
     \<lparr>index = RangeIndex 0,
      columns = [(''Timestamp'', Object []), (''Vibration Level (mm/s)'', Object []),
                 (''Machine Speed (RPM)'', Object []), (''Production Quality Score'', Object []),
                 (''Optimal Conditions'', Object []), (''Energy Consumption (kWh)'', Object []),
                 (''Temperature ('' @ [CHR 0xC2, CHR 0xB0] @ ''C)'', Object [])]\<rparr>"

definition header_only_table :: frame where
  "header_only_table =
     \<lparr>index = DatetimeIndex [],
      columns = [(''Vibration_Level'', Object []), (''Machine_Speed'', Object []),
                 (''Production_Quality_Score'', Object []), (''Optimal_Conditions'', Object []),
                 (''Energy_Consumption'', Object []), (''Temperature'', Object [])]\<rparr>"

text \<open>A file with one row that lacks the vibration column, as \<^verbatim>\<open>read_csv\<close> returns it.\<close>

definition no_vibration_csv :: frame where
  "no_vibration_csv =
     \<lparr>index = RangeIndex 1,
      columns = [(''Timestamp'', Object [Some ''2024-01-01 00:30:00'']),
                 (''Machine Speed (RPM)'', Float64 [1500]),
                 (''Production Quality Score'', Float64 [8]),
                 (''Optimal Conditions'', Boolean [True]),
                 (''Energy Consumption (kWh)'', Float64 [2]),
                 (''Temperature ('' @ [CHR 0xC2, CHR 0xB0] @ ''C)'', Float64 [70])]\<rparr>"

text \<open>A file of three rows whose second time stamp is not a date.\<close>

definition not_a_date_csv :: frame where
  "not_a_date_csv =
     \<lparr>index = RangeIndex 3,
      columns = [(''Timestamp'', Object [Some ''2024-01-01 02:15:00'', Some ''not-a-date'', Some ''2024-01-01 00:30:00'']),
                 (''Vibration Level (mm/s)'', Float64 [1, 2, 3])]\<rparr>"

text \<open>
  A file of four rows: the time stamp of the second is the string \<^verbatim>\<open>NaT\<close>, that of the
  third is missing. Its table has all four rows, the two without a time stamp last.
\<close>

definition nat_csv :: frame where
  "nat_csv =
     \<lparr>index = RangeIndex 4,
      columns = [(''Timestamp'', Object [Some ''2024-01-01 02:15:00'', Some ''NaT'', None, Some ''2024-01-01 00:30:00'']),
                 (''Vibration Level (mm/s)'', Float64 [1, 2, 3, 4])]\<rparr>"

definition nat_table :: frame where
  "nat_table =
     \<lparr>index = DatetimeIndex [Some 1704069000000000000, Some 1704075300000000000, None, None],
      columns = [(''Vibration_Level'', Float64 [4, 1, 2, 3])]\<rparr>"

text \<open>
  A file of twenty rows that all have the same time stamp, its table with the rows in
  the reverse order of the file, and in the order of the file.
\<close>

definition tied_csv :: frame where
  "tied_csv =
     \<lparr>index = RangeIndex 20,
      columns = [(''Timestamp'', Object (replicate 20 (Some ''2024-01-01 00:30:00''))),
                 (''Vibration Level (mm/s)'',
                    Float64 [1, 2, 3, 4, 5, 6, 7, 8, 9, 10, 11, 12, 13, 14, 15, 16, 17, 18, 19, 20])]\<rparr>"

definition tied_table_reversed :: frame where
  "tied_table_reversed =
     \<lparr>index = DatetimeIndex (replicate 20 (Some 1704069000000000000)),
      columns = [(''Vibration_Level'',
                    Float64 [20, 19, 18, 17, 16, 15, 14, 13, 12, 11, 10, 9, 8, 7, 6, 5, 4, 3, 2, 1])]\<rparr>"

definition tied_table :: frame where
  "tied_table =
     \<lparr>index = DatetimeIndex (replicate 20 (Some 1704069000000000000)),
      columns = [(''Vibration_Level'',
                    Float64 [1, 2, 3, 4, 5, 6, 7, 8, 9, 10, 11, 12, 13, 14, 15, 16, 17, 18, 19, 20])]\<rparr>"

text \<open>A file of two rows out of order with different time stamps; its table is \<open>two_row_table\<close> below.\<close>

definition two_row_csv :: frame where
  "two_row_csv =
     \<lparr>index = RangeIndex 2,
      columns = [(''Timestamp'', Object [Some ''2024-01-01 02:15:00'', Some ''2024-01-01 00:30:00'']),
                 (''Vibration Level (mm/s)'', Float64 [4, 2]),
                 (''Optimal Conditions'', Boolean [False, True])]\<rparr>"

text \<open>A table of five rows with a time index, as \<^verbatim>\<open>load_data\<close> returns it.\<close>

definition five_row_table :: frame where
  "five_row_table =
     \<lparr>index = DatetimeIndex [Some 1704069000000000000, Some 1704069000000000001, Some 1704075300000000000, Some 1704075300000000000, Some 1704075300000000005],
      columns = [(''Vibration_Level'', Float64 [2, 1, 3, 2, 5]),
                 (''Machine_Speed'', Float64 [1500, 1400, 1450, 1500, 1475]),
                 (''Production_Quality_Score'', Float64 [8, 9, 7, 4, 8]),
                 (''Optimal_Conditions'', Boolean [True, False, True, True, False]),
                 (''Energy_Consumption'', Float64 [2, 2, 2, 2, 2]),
                 (''Temperature'', Float64 [70, 71, 70, 69, 70])]\<rparr>"

text \<open>A table whose three monitored columns are constant.\<close>

definition constant_table :: frame where
  "constant_table =
     \<lparr>index = DatetimeIndex [Some 1704069000000000000, Some 1704069000000000001, Some 1704075300000000000],
      columns = [(''Vibration_Level'', Float64 [3, 3, 3]),
                 (''Production_Quality_Score'', Float64 [8, 8, 8]),
                 (''Energy_Consumption'', Float64 [2, 2, 2])]\<rparr>"

text \<open>
  A table of 100 rows: the vibration levels are 0.0, 0.1, ... 9.8 in 99 rows and 1000
  in the last.
\<close>

definition outlier_column :: "real list" where
  "outlier_column = map (\<lambda>k. real k / 10) [0..<99] @ [1000]"

definition outlier_table :: frame where
  "outlier_table =
     \<lparr>index = DatetimeIndex (map (\<lambda>k. Some (1704069000000000000 + int k)) [0..<100]),
      columns = [(''Vibration_Level'', Float64 outlier_column),
                 (''Production_Quality_Score'', Float64 (replicate 100 8)),
                 (''Energy_Consumption'', Float64 (replicate 100 2))]\<rparr>"

text \<open>
  A table of two rows, at 00:30 and at 02:15 of the same day, and its hourly means: the
  bins of 00:00, 01:00 and 02:00, the middle one without rows.
\<close>

definition two_row_table :: frame where
  "two_row_table =
     \<lparr>index = DatetimeIndex [Some 1704069000000000000, Some 1704075300000000000],
      columns = [(''Vibration_Level'', Float64 [2, 4]),
                 (''Optimal_Conditions'', Boolean [True, False])]\<rparr>"

definition two_row_hourly :: hourly where
  "two_row_hourly =
     \<lparr>h_index = [1704067200000000000, 1704070800000000000, 1704074400000000000],
      h_columns = [(''Vibration_Level'', [Val 2, NaN, Val 4]),
                   (''Optimal_Conditions'', [Val 1, NaN, Val 0])]\<rparr>"

section \<open>Properties\<close>

subsection \<open>Selecting a column\<close>

lemma getitem_Series_mem:
  assumes "getitem df key = Inr (Series c)"
  shows "(key, c) \<in> set (columns df)"
proof -
  let ?cs = "filter (\<lambda>nc. fst nc = key) (columns df)"
  from assms have l: "length ?cs = 1" and h: "hd (map snd ?cs) = c"
    by (auto simp: getitem_def Let_def split: if_splits)
  from l obtain p where p: "?cs = [p]"
    by (cases ?cs) auto
  with h have "snd p = c" by simp
  moreover from p have "p \<in> set ?cs" by simp
  then have "p \<in> set (columns df)" "fst p = key" by auto
  ultimately show ?thesis by (cases p) auto
qed

lemma well_formed_Series:
  "well_formed df \<Longrightarrow> getitem df key = Inr (Series c) \<Longrightarrow> col_length c = len df"
  by (auto simp: well_formed_def list_all_iff dest!: getitem_Series_mem)

subsection \<open>The two sorts of the examples meet the contract\<close>

lemma argsorts_insertion: "argsorts insertion_argsort"
  unfolding argsorts_def insertion_argsort_def
  by (simp add: sorted_sort_key del: mset_upt)

lemma argsorts_reversed_ties: "argsorts reversed_ties_argsort"
  unfolding argsorts_def reversed_ties_argsort_def
  by (simp add: sorted_sort_key del: mset_upt)

lemma load_header_only:
  "load_data example_conv insertion_argsort header_only_csv = Inr header_only_table"
  by (simp add: load_data_def header_only_csv_def header_only_table_def rename_def getitem_def
      convert_listlike_def string_elements_def assign_sort_set_index_def nargsort_def
      insertion_argsort_def column_names_def take_rows_def)

subsection \<open>The KPIs of a table without rows\<close>

lemma mean_empty: "col_length c = 0 \<Longrightarrow> mean c = Inr NaN"
  by (cases c) auto

lemma sum_over_len_pct_empty:
  "col_length c = 0 \<Longrightarrow>
   sum_over_len_pct c 0 = (if numeric c then Inr NaN else Inl ZeroDivisionError)"
  by (cases c) (auto simp: np_divide_def count_true_def)

text \<open>
  C1, as the code has it. For a table without rows no error for an empty input is
  raised: the script has none. The three averages are NaN, and computing them raises
  nothing. The percentage is NaN when the column of the optimal-conditions flag is
  numeric (\<^verbatim>\<open>float64\<close> or \<^verbatim>\<open>bool\<close>); it is a \<^verbatim>\<open>ZeroDivisionError\<close> when the column
  has the dtype \<^verbatim>\<open>object\<close>, which is the dtype of the columns of a table without rows
  that is read from a file. So the four metrics are either all NaN, or end in that
  error after the three averages. The sidebar, which the script runs before the
  metrics, raises a \<^verbatim>\<open>ValueError\<close> on such a table.
\<close>

theorem summary_metrics_empty:
  assumes "well_formed df" and "index df = DatetimeIndex []"
    and "getitem df ''Production_Quality_Score'' = Inr (Series cq)"
    and "getitem df ''Machine_Speed'' = Inr (Series cs)"
    and "getitem df ''Energy_Consumption'' = Inr (Series ce)"
    and "getitem df ''Optimal_Conditions'' = Inr (Series co)"
  shows "sidebar df = Inl ValueError \<and>
         avg_quality df = Inr NaN \<and> avg_speed df = Inr NaN \<and> avg_energy df = Inr NaN \<and>
         optimal_pct df = (if numeric co then Inr NaN else Inl ZeroDivisionError) \<and>
         summary_metrics df =
           (if numeric co
            then Inr \<lparr>m_avg_quality = NaN, m_avg_speed = NaN, m_avg_energy = NaN, m_optimal_pct = NaN\<rparr>
            else Inl ZeroDivisionError)"
proof -
  have n: "len df = 0" using assms(2) by (simp add: len_def)
  have l: "col_length cq = 0" "col_length cs = 0" "col_length ce = 0" "col_length co = 0"
    using well_formed_Series [OF assms(1) assms(3)] well_formed_Series [OF assms(1) assms(4)]
      well_formed_Series [OF assms(1) assms(5)] well_formed_Series [OF assms(1) assms(6)] n
    by simp_all
  have b: "sidebar df = Inl ValueError"
    using assms(2) by (simp add: sidebar_def stamps_def)
  have q: "avg_quality df = Inr NaN"
    using assms(3) l(1) by (simp add: avg_quality_def column_mean_def mean_empty)
  have s: "avg_speed df = Inr NaN"
    using assms(4) l(2) by (simp add: avg_speed_def column_mean_def mean_empty)
  have e: "avg_energy df = Inr NaN"
    using assms(5) l(3) by (simp add: avg_energy_def column_mean_def mean_empty)
  have p: "optimal_pct df = (if numeric co then Inr NaN else Inl ZeroDivisionError)"
    using assms(6) n l(4) by (simp add: optimal_pct_def sum_over_len_pct_empty)
  show ?thesis using b q s e p by (simp add: summary_metrics_def)
qed

text \<open>The theorem at the table loaded from a file that has only its header line.\<close>

theorem summary_metrics_empty_witness:
  "sidebar header_only_table = Inl ValueError \<and>
   avg_quality header_only_table = Inr NaN \<and> avg_speed header_only_table = Inr NaN \<and>
   avg_energy header_only_table = Inr NaN \<and>
   optimal_pct header_only_table = Inl ZeroDivisionError \<and>
   summary_metrics header_only_table = Inl ZeroDivisionError"
proof -
  have w: "well_formed header_only_table" and i: "index header_only_table = DatetimeIndex []"
    by (simp_all add: well_formed_def header_only_table_def len_def)
  have g: "getitem header_only_table ''Production_Quality_Score'' = Inr (Series (Object []))"
    "getitem header_only_table ''Machine_Speed'' = Inr (Series (Object []))"
    "getitem header_only_table ''Energy_Consumption'' = Inr (Series (Object []))"
    "getitem header_only_table ''Optimal_Conditions'' = Inr (Series (Object []))"
    by (simp_all add: getitem_def header_only_table_def)
  from summary_metrics_empty [OF w i g] show ?thesis by simp
qed

text \<open>
  C1 as the specification states it fails. A file that has only its header line is
  loaded into a table without rows, and for this table the three averages are NaN; no
  error is raised for them.
\<close>

theorem summary_metrics_empty_counterexample:
  "load_data example_conv insertion_argsort header_only_csv = Inr header_only_table \<and>
   len header_only_table = 0 \<and>
   avg_quality header_only_table = Inr NaN \<and>
   avg_speed header_only_table = Inr NaN \<and>
   avg_energy header_only_table = Inr NaN"
  using load_header_only
  by (simp add: avg_quality_def avg_speed_def avg_energy_def column_mean_def getitem_def
      header_only_table_def len_def)

subsection \<open>Loading: a column that is not there\<close>

lemma convert_all_error: "convert_all p xs = Inl e \<Longrightarrow> e = ValueError"
  by (induction p xs rule: convert_all.induct) (auto split: option.splits sum.splits)

lemma convert_listlike_error: "convert_listlike conv xs = Inl e \<Longrightarrow> e = ValueError"
  unfolding convert_listlike_def
  by (auto split: option.splits dest: convert_all_error)

lemma to_datetime_no_KeyError: "to_datetime conv sel \<noteq> Inl (KeyError k)"
proof
  assume a: "to_datetime conv sel = Inl (KeyError k)"
  show False
  proof (cases sel)
    case (Series c)
    with a show False
      by (cases c) (auto dest: convert_listlike_error)
  next
    case (DataFrame cs)
    with a show False by simp
  qed
qed

lemma filter_renamed_timestamp:
  "filter (\<lambda>nc. fst nc = ''DateTime'') (columns (rename [(''Timestamp'', ''DateTime'')] csv)) = [] \<longleftrightarrow>
   ''Timestamp'' \<notin> fst ` set (columns csv) \<and> ''DateTime'' \<notin> fst ` set (columns csv)"
  by (auto simp: rename_def filter_empty_conv image_iff split: if_splits)

lemma getitem_timestamp_only:
  "getitem (rename [(''Timestamp'', ''DateTime'')]
              (csv\<lparr>columns := filter (\<lambda>nc. fst nc = ''Timestamp'' \<or> fst nc = ''DateTime'') (columns csv)\<rparr>))
           ''DateTime'' =
   getitem (rename [(''Timestamp'', ''DateTime'')] csv) ''DateTime''"
proof -
  let ?r = "\<lambda>nc :: string \<times> column.
      (case map_of [(''Timestamp'', ''DateTime'')] (fst nc) of Some n' \<Rightarrow> n' | None \<Rightarrow> fst nc, snd nc)"
  have "filter (\<lambda>nc. fst nc = ''DateTime'')
          (map ?r (filter (\<lambda>nc. fst nc = ''Timestamp'' \<or> fst nc = ''DateTime'') cols)) =
        filter (\<lambda>nc. fst nc = ''DateTime'') (map ?r cols)" for cols
    by (induction cols) auto
  then show ?thesis by (simp add: getitem_def rename_def)
qed

text \<open>
  C3, as the code has it. \<^verbatim>\<open>load_data\<close> raises a \<^verbatim>\<open>KeyError\<close> exactly when the file
  has no time stamp column (neither \<^verbatim>\<open>Timestamp\<close> nor \<^verbatim>\<open>DateTime\<close>), and the error
  names \<^verbatim>\<open>DateTime\<close>, the internal label. No other column is looked for: whether
  \<^verbatim>\<open>load_data\<close> fails, and with which error, is the same for the file and for the file
  stripped of all its columns but the time stamps.
\<close>

theorem load_data_KeyError:
  "(load_data conv kind csv = Inl (KeyError k) \<longleftrightarrow>
      k = ''DateTime'' \<and> ''Timestamp'' \<notin> fst ` set (columns csv) \<and>
      ''DateTime'' \<notin> fst ` set (columns csv)) \<and>
   (load_data conv kind csv = Inl e \<longleftrightarrow>
      load_data conv kind
        (csv\<lparr>columns := filter (\<lambda>nc. fst nc = ''Timestamp'' \<or> fst nc = ''DateTime'') (columns csv)\<rparr>) =
      Inl e)"
proof
  let ?df = "rename [(''Timestamp'', ''DateTime'')] csv"
  let ?cs = "filter (\<lambda>nc. fst nc = ''DateTime'') (columns ?df)"
  show "load_data conv kind csv = Inl (KeyError k) \<longleftrightarrow>
      k = ''DateTime'' \<and> ''Timestamp'' \<notin> fst ` set (columns csv) \<and>
      ''DateTime'' \<notin> fst ` set (columns csv)"
  proof (cases "?cs = []")
    case True
    then have "getitem ?df ''DateTime'' = Inl (KeyError ''DateTime'')"
      by (simp add: getitem_def)
    then have "load_data conv kind csv = Inl (KeyError ''DateTime'')"
      by (simp add: load_data_def)
    with True filter_renamed_timestamp [of csv] show ?thesis by auto
  next
    case False
    then have "\<exists>sel. getitem ?df ''DateTime'' = Inr sel"
      by (simp add: getitem_def Let_def)
    then obtain sel where "getitem ?df ''DateTime'' = Inr sel" ..
    then have "load_data conv kind csv \<noteq> Inl (KeyError k)"
      using to_datetime_no_KeyError [of conv sel k]
      by (auto simp: load_data_def split: sum.splits)
    with False filter_renamed_timestamp [of csv] show ?thesis by auto
  qed
next
  show "load_data conv kind csv = Inl e \<longleftrightarrow>
      load_data conv kind
        (csv\<lparr>columns := filter (\<lambda>nc. fst nc = ''Timestamp'' \<or> fst nc = ''DateTime'') (columns csv)\<rparr>) =
      Inl e"
    unfolding load_data_def Let_def getitem_timestamp_only
    by (auto split: sum.splits)
qed

text \<open>
  C3 as the specification states it fails: a file without the vibration column is
  loaded, and the table returned has the five columns that were there.
\<close>

theorem load_data_missing_column_counterexample:
  "load_data example_conv insertion_argsort no_vibration_csv =
     Inr \<lparr>index = DatetimeIndex [Some 1704069000000000000],
          columns = [(''Machine_Speed'', Float64 [1500]),
                     (''Production_Quality_Score'', Float64 [8]),
                     (''Optimal_Conditions'', Boolean [True]),
                     (''Energy_Consumption'', Float64 [2]),
                     (''Temperature'', Float64 [70])]\<rparr>"
  by (simp add: load_data_def no_vibration_csv_def rename_def getitem_def
      convert_listlike_def string_elements_def is_nat_def nat_strings_def
      assign_sort_set_index_def nargsort_def insertion_argsort_def column_names_def take_rows_def
      example_conv_def)

subsection \<open>Sorting with rows that have no time stamp\<close>

lemma argsorts_length: "argsorts kind \<Longrightarrow> length (kind ks) = length ks"
proof -
  assume "argsorts kind"
  then have "mset (kind ks) = mset [0..<length ks]" by (simp only: argsorts_def)
  then have "size (mset (kind ks)) = size (mset [0..<length ks])" by (simp only:)
  then show ?thesis by (simp only: size_mset length_upt minus_nat.diff_0)
qed

lemma argsorts_set: "argsorts kind \<Longrightarrow> set (kind ks) = {0..<length ks}"
proof -
  assume "argsorts kind"
  then have "mset (kind ks) = mset [0..<length ks]" by (simp only: argsorts_def)
  then have "set_mset (mset (kind ks)) = set_mset (mset [0..<length ks])" by (simp only:)
  then show ?thesis by (simp only: set_mset_mset set_upt)
qed

lemma argsorts_sorted: "argsorts kind \<Longrightarrow> sorted (map (\<lambda>i. ks ! i) (kind ks))"
  by (simp only: argsorts_def)

lemma stamps_conv_idx:
  "stamps ts = map (\<lambda>i. the (ts ! i)) (filter (\<lambda>i. ts ! i \<noteq> None) [0..<length ts])"
proof -
  have "filter (\<lambda>t. t \<noteq> None) (map (\<lambda>i. ts ! i) [0..<length ts]) =
        map (\<lambda>i. ts ! i) (filter (\<lambda>i. ts ! i \<noteq> None) [0..<length ts])"
    by (simp add: filter_map comp_def)
  then have "filter (\<lambda>t. t \<noteq> None) ts = map (\<lambda>i. ts ! i) (filter (\<lambda>i. ts ! i \<noteq> None) [0..<length ts])"
    by (simp only: map_nth)
  then show ?thesis by (simp add: stamps_def)
qed

lemma nans_conv_idx:
  "length (filter (\<lambda>i. ts ! i = None) [0..<length ts]) = length (filter (\<lambda>t. t = None) ts)"
proof -
  have "filter (\<lambda>t. t = None) (map (\<lambda>i. ts ! i) [0..<length ts]) =
        map (\<lambda>i. ts ! i) (filter (\<lambda>i. ts ! i = None) [0..<length ts])"
    by (simp add: filter_map comp_def)
  then have "filter (\<lambda>t. t = None) ts = map (\<lambda>i. ts ! i) (filter (\<lambda>i. ts ! i = None) [0..<length ts])"
    by (simp only: map_nth)
  then show ?thesis by simp
qed

lemma nargsort_eq:
  "nargsort kind ts =
     map (\<lambda>j. filter (\<lambda>i. ts ! i \<noteq> None) [0..<length ts] ! j) (kind (stamps ts)) @
     filter (\<lambda>i. ts ! i = None) [0..<length ts]"
  by (simp add: nargsort_def Let_def stamps_conv_idx)

lemma length_nargsort:
  assumes "argsorts kind"
  shows "length (nargsort kind ts) = length ts"
proof -
  have "length (kind (stamps ts)) = length (filter (\<lambda>i. ts ! i \<noteq> None) [0..<length ts])"
    using argsorts_length [OF assms, of "stamps ts"] by (simp add: stamps_conv_idx)
  moreover have "length (filter (\<lambda>i. ts ! i \<noteq> None) [0..<length ts]) +
                 length (filter (\<lambda>i. \<not> ts ! i \<noteq> None) [0..<length ts]) = length [0..<length ts]"
    by (rule sum_length_filter_compl)
  ultimately show ?thesis by (simp add: nargsort_eq)
qed

lemma take_nargsort:
  assumes "argsorts kind"
  shows "map (\<lambda>i. ts ! i) (nargsort kind ts) =
           map Some (map (\<lambda>j. stamps ts ! j) (kind (stamps ts))) @
           replicate (length (filter (\<lambda>t. t = None) ts)) None"
proof -
  let ?vi = "filter (\<lambda>i. ts ! i \<noteq> None) [0..<length ts]"
  let ?ni = "filter (\<lambda>i. ts ! i = None) [0..<length ts]"
  let ?vs = "stamps ts"
  have lv: "length ?vs = length ?vi" by (simp add: stamps_conv_idx)
  have v: "ts ! (?vi ! j) = Some (?vs ! j)" if "j < length ?vi" for j
  proof -
    from that have "?vi ! j \<in> set ?vi" by (rule nth_mem)
    then have "ts ! (?vi ! j) \<noteq> None" by simp
    moreover have "?vs ! j = the (ts ! (?vi ! j))"
      using that by (simp add: stamps_conv_idx)
    ultimately show ?thesis by auto
  qed
  have "map (\<lambda>i. ts ! i) (map (\<lambda>j. ?vi ! j) (kind ?vs)) = map Some (map (\<lambda>j. ?vs ! j) (kind ?vs))"
  proof -
    have "ts ! (?vi ! j) = Some (?vs ! j)" if "j \<in> set (kind ?vs)" for j
    proof -
      from that have "j < length ?vs" using argsorts_set [OF assms, of ?vs] by simp
      then show ?thesis using v lv by simp
    qed
    then show ?thesis by simp
  qed
  moreover have "map (\<lambda>i. ts ! i) ?ni = replicate (length ?ni) None"
  proof -
    have "map (\<lambda>i. ts ! i) ?ni = map (\<lambda>i. None) ?ni" by (rule map_cong) simp_all
    then show ?thesis by (simp add: map_replicate_const)
  qed
  ultimately show ?thesis
    by (simp add: nargsort_eq nans_conv_idx)
qed

lemma stamps_sorted_form: "stamps (map Some ws @ replicate m None) = ws"
  by (simp add: stamps_def filter_map comp_def)

lemma nans_sorted_form:
  "length (filter (\<lambda>t. t = None) (map Some ws @ replicate m None)) = m"
  by (simp add: filter_map comp_def)

lemma idx_sorted_form:
  shows "filter (\<lambda>i. (map Some ws @ replicate m None) ! i \<noteq> None) [0..<length ws + m] =
           [0..<length ws]"
    and "filter (\<lambda>i. (map Some ws @ replicate m None) ! i = None) [0..<length ws + m] =
           [length ws..<length ws + m]"
proof -
  let ?ts = "map Some ws @ replicate m None"
  let ?lo = "[0..<length ws]"
  let ?hi = "[length ws..<length ws + m]"
  have u: "[0..<length ws + m] = ?lo @ ?hi"
    by (rule upt_add_eq_append) simp
  have a: "\<forall>i \<in> set ?lo. ?ts ! i \<noteq> None"
    by (simp add: nth_append)
  have b: "\<forall>i \<in> set ?hi. ?ts ! i = None"
  proof
    fix i assume "i \<in> set ?hi"
    then have "\<not> i < length (map Some ws)" "i - length (map Some ws) < m" by auto
    then show "?ts ! i = None" by (simp only: nth_append if_False nth_replicate)
  qed
  have a': "\<forall>i \<in> set ?lo. \<not> ?ts ! i = None" using a by simp
  have b': "\<forall>i \<in> set ?hi. \<not> ?ts ! i \<noteq> None" using b by simp
  have 1: "filter (\<lambda>i. ?ts ! i \<noteq> None) ?lo = ?lo" by (rule filter_True [OF a])
  have 2: "filter (\<lambda>i. ?ts ! i \<noteq> None) ?hi = []" by (rule filter_False [OF b'])
  have 3: "filter (\<lambda>i. ?ts ! i = None) ?lo = []" by (rule filter_False [OF a'])
  have 4: "filter (\<lambda>i. ?ts ! i = None) ?hi = ?hi" by (rule filter_True [OF b])
  show "filter (\<lambda>i. ?ts ! i \<noteq> None) [0..<length ws + m] = ?lo"
    by (simp only: u filter_append 1 2 append_Nil2)
  show "filter (\<lambda>i. ?ts ! i = None) [0..<length ws + m] = ?hi"
    by (simp only: u filter_append 3 4 append_Nil)
qed

lemma nargsort_sorted_form:
  assumes "kind ws = [0..<length ws]"
  shows "nargsort kind (map Some ws @ replicate m None) = [0..<length ws + m]"
proof -
  let ?ts = "map Some ws @ replicate m None"
  have l: "length ?ts = length ws + m" by simp
  have n: "map (\<lambda>j. [0..<length ws] ! j) [0..<length ws] = [0..<length ws]"
    using map_nth [of "[0..<length ws]"] by simp
  have u: "[0..<length ws + m] = [0..<length ws] @ [length ws..<length ws + m]"
    by (rule upt_add_eq_append) simp
  have "nargsort kind ?ts =
      map (\<lambda>j. [0..<length ws] ! j) (kind ws) @ [length ws..<length ws + m]"
    by (simp only: nargsort_eq l stamps_sorted_form idx_sorted_form)
  also have "\<dots> = [0..<length ws] @ [length ws..<length ws + m]"
    by (simp only: assms n)
  also have "\<dots> = [0..<length ws + m]"
    by (simp only: u)
  finally show ?thesis .
qed

subsection \<open>Loading: the table is sorted\<close>

lemma take_col_all: "take_col [0..<col_length c] c = c"
  by (cases c) (simp_all add: map_nth)

lemma col_length_take_col: "col_length (take_col order c) = length order"
  by (cases c) simp_all

lemma take_rows_all:
  assumes "\<forall>nc \<in> set cols. col_length (snd nc) = n"
  shows "take_rows [0..<n] cols = cols"
  unfolding take_rows_def
proof (rule map_idI)
  fix nc assume "nc \<in> set cols"
  with assms have "col_length (snd nc) = n" by blast
  then show "(fst nc, take_col [0..<n] (snd nc)) = nc"
    using take_col_all [of "snd nc"] by simp
qed

lemma index_rename: "index (rename m df) = index df"
  by (simp add: rename_def)

lemma index_assign_sort_set_index:
  "index (assign_sort_set_index kind key ts df) =
     DatetimeIndex (map (\<lambda>i. ts ! i) (nargsort kind ts))"
  by (simp add: assign_sort_set_index_def Let_def)

lemma col_length_loaded:
  assumes "argsorts kind"
    and "nc \<in> set (columns (rename m (assign_sort_set_index kind key ts df)))"
  shows "col_length (snd nc) = length ts"
  using assms(2)
  by (auto simp: rename_def assign_sort_set_index_def Let_def take_rows_def
      col_length_take_col length_nargsort [OF assms(1)])

lemma sorted_any_order:
  fixes ts :: "int list"
  assumes "sorted ts" and "mset order = mset [0..<length ts]"
    and "sorted (map (\<lambda>i. ts ! i) order)"
  shows "map (\<lambda>i. ts ! i) order = ts"
proof -
  have "mset (map (\<lambda>i. ts ! i) order) = image_mset (\<lambda>i. ts ! i) (mset order)"
    by (simp only: mset_map)
  also have "\<dots> = image_mset (\<lambda>i. ts ! i) (mset [0..<length ts])"
    by (simp only: assms(2))
  also have "\<dots> = mset (map (\<lambda>i. ts ! i) [0..<length ts])"
    by (simp only: mset_map)
  also have "\<dots> = mset ts" by (simp only: map_nth)
  finally have "sort ts = map (\<lambda>i. ts ! i) order"
    using assms(3) by (intro properties_for_sort) simp_all
  with assms(1) show ?thesis by (simp add: sorted_sort_id)
qed

lemma distinct_order_identity:
  fixes ws :: "int list"
  assumes "distinct ws" and "set order = {0..<length ws}" and "length order = length ws"
    and "map (\<lambda>i. ws ! i) order = ws"
  shows "order = [0..<length ws]"
proof (rule nth_equalityI)
  show "length order = length [0..<length ws]" using assms(3) by simp
next
  fix i assume i: "i < length order"
  then have "order ! i \<in> set order" by (rule nth_mem)
  then have o: "order ! i < length ws" using assms(2) by simp
  have "map (\<lambda>i. ws ! i) order ! i = ws ! i" by (simp only: assms(4))
  then have "ws ! (order ! i) = ws ! i" using i by simp
  then have "order ! i = i"
    using assms(1) o i assms(3) by (simp add: nth_eq_iff_index_eq)
  then show "order ! i = [0..<length ws] ! i" using i assms(3) by simp
qed

lemma sort_values_again_identity:
  assumes "index df = DatetimeIndex (map Some ws @ replicate m None)"
    and "\<forall>nc \<in> set (columns df). col_length (snd nc) = length ws + m"
    and "kind ws = [0..<length ws]"
  shows "sort_values_again kind df = df"
proof -
  let ?ts = "map Some ws @ replicate m None"
  have o: "nargsort kind ?ts = [0..<length ws + m]"
    using assms(3) by (rule nargsort_sorted_form [where kind = kind and ws = ws])
  have "length ?ts = length ws + m" by simp
  then have "map (\<lambda>i. ?ts ! i) [0..<length ws + m] = ?ts"
    using map_nth [of ?ts] by (simp only:)
  moreover have "take_rows [0..<length ws + m] (columns df) = columns df"
    by (rule take_rows_all [OF assms(2)])
  ultimately show ?thesis
    using assms(1) o by (simp add: sort_values_again_def Let_def)
qed

lemma index_sort_values_again:
  assumes "argsorts kind" and "sorted ws"
    and "index df = DatetimeIndex (map Some ws @ replicate m None)"
  shows "index (sort_values_again kind df) = index df"
proof -
  let ?ts = "map Some ws @ replicate m None"
  have "map (\<lambda>j. ws ! j) (kind ws) = ws"
    using assms(1,2) by (intro sorted_any_order) (simp_all only: argsorts_def)
  then have "map (\<lambda>i. ?ts ! i) (nargsort kind ?ts) = ?ts"
    by (simp only: take_nargsort [OF assms(1)] stamps_sorted_form nans_sorted_form)
  then show ?thesis
    using assms(3) by (simp add: sort_values_again_def Let_def)
qed

text \<open>
  C6, as the code has it. Whenever \<^verbatim>\<open>load_data\<close> returns a table, its index is in
  ascending order of time stamp, the rows without a time stamp last. Sorting the table
  by time stamp again, with whatever sort that meets the contract, leaves the index as
  it is. It leaves the whole table as it is when the time stamps are distinct, and also
  when the sort keeps equal keys in their order; otherwise rows with equal time stamps
  can change places.
\<close>

theorem load_data_sorted:
  assumes "argsorts kind" and "load_data conv kind csv = Inr df" and "argsorts kind'"
  shows "\<exists>ws m. index df = DatetimeIndex (map Some ws @ replicate m None) \<and> sorted ws \<and>
               index (sort_values_again kind' df) = index df \<and>
               (distinct ws \<longrightarrow> sort_values_again kind' df = df) \<and>
               sort_values_again insertion_argsort df = df"
proof -
  let ?df0 = "rename [(''Timestamp'', ''DateTime'')] csv"
  from assms(2) obtain ts where
    df: "df = rename column_names (assign_sort_set_index kind ''DateTime'' ts ?df0)"
    by (auto simp: load_data_def Let_def split: sum.splits)
  define ws where "ws = map (\<lambda>j. stamps ts ! j) (kind (stamps ts))"
  define m where "m = length (filter (\<lambda>t. t = None) ts)"
  have ix: "index df = DatetimeIndex (map Some ws @ replicate m None)"
    by (simp add: df index_rename index_assign_sort_set_index take_nargsort [OF assms(1)]
        ws_def m_def)
  have s: "sorted ws"
    unfolding ws_def by (rule argsorts_sorted [OF assms(1)])
  have "length (map (\<lambda>i. ts ! i) (nargsort kind ts)) = length ws + m"
    by (simp add: take_nargsort [OF assms(1)] ws_def m_def)
  then have n: "length ts = length ws + m"
    by (simp add: length_nargsort [OF assms(1)])
  have cols: "\<forall>nc \<in> set (columns df). col_length (snd nc) = length ws + m"
    unfolding df using col_length_loaded [OF assms(1)] n by simp
  have i: "index (sort_values_again kind' df) = index df"
    by (rule index_sort_values_again [OF assms(3) s ix])
  have d: "sort_values_again kind' df = df" if "distinct ws"
  proof -
    have "map (\<lambda>j. ws ! j) (kind' ws) = ws"
      using assms(3) s by (intro sorted_any_order) (simp_all only: argsorts_def)
    then have "kind' ws = [0..<length ws]"
      using that argsorts_set [OF assms(3), of ws] argsorts_length [OF assms(3), of ws]
      by (intro distinct_order_identity)
    then show ?thesis by (rule sort_values_again_identity [OF ix cols])
  qed
  have "insertion_argsort ws = [0..<length ws]"
    unfolding insertion_argsort_def
    using s by (intro sort_key_id_if_sorted) (simp add: map_nth)
  then have st: "sort_values_again insertion_argsort df = df"
    by (rule sort_values_again_identity [OF ix cols])
  from ix s i d st show ?thesis by blast
qed

lemma load_two_row:
  "load_data example_conv reversed_ties_argsort two_row_csv = Inr two_row_table"
  by (simp add: load_data_def two_row_csv_def two_row_table_def rename_def getitem_def
      convert_listlike_def string_elements_def is_nat_def nat_strings_def
      assign_sort_set_index_def nargsort_def reversed_ties_argsort_def column_names_def
      take_rows_def example_conv_def upt_rec)

text \<open>
  The theorem at a file of two rows out of order, with the sort that leaves equal keys
  in reverse order: the table has them in order, and sorting it again changes nothing.
\<close>

theorem load_data_sorted_witness:
  "load_data example_conv reversed_ties_argsort two_row_csv = Inr two_row_table \<and>
   sorted [1704069000000000000, 1704075300000000000 :: int] \<and>
   distinct [1704069000000000000, 1704075300000000000 :: int] \<and>
   sort_values_again reversed_ties_argsort two_row_table = two_row_table \<and>
   sort_values_again insertion_argsort two_row_table = two_row_table"
proof -
  from load_data_sorted [OF argsorts_reversed_ties load_two_row argsorts_reversed_ties]
  obtain ws m where
    w: "index two_row_table = DatetimeIndex (map Some ws @ replicate m None)"
      "distinct ws \<longrightarrow> sort_values_again reversed_ties_argsort two_row_table = two_row_table"
      "sort_values_again insertion_argsort two_row_table = two_row_table"
    by blast
  from w(1) have "map Some ws @ replicate m None =
      [Some 1704069000000000000, Some 1704075300000000000]"
    by (simp add: two_row_table_def)
  then have "stamps (map Some ws @ replicate m None) =
      stamps [Some 1704069000000000000, Some 1704075300000000000]"
    by (simp only:)
  then have "ws = [1704069000000000000, 1704075300000000000]"
    by (simp add: stamps_sorted_form) (simp add: stamps_def)
  with w(2,3) load_two_row show ?thesis by simp
qed

lemma load_tied:
  "load_data example_conv reversed_ties_argsort tied_csv = Inr tied_table_reversed"
  by (simp add: load_data_def tied_csv_def tied_table_reversed_def rename_def getitem_def
      convert_listlike_def string_elements_def is_nat_def nat_strings_def
      assign_sort_set_index_def nargsort_def reversed_ties_argsort_def column_names_def
      take_rows_def example_conv_def upt_rec numeral_nat)

text \<open>
  C6 as the specification states it fails. With a sort that meets the contract and
  leaves equal keys in reverse order, the file of twenty rows with one time stamp is
  loaded into a table, sorted as all its time stamps are equal, and sorting this table
  again with the same sort gives another table: the rows are in the order of the file
  again.
\<close>

theorem load_data_sorted_counterexample:
  "argsorts reversed_ties_argsort \<and>
   load_data example_conv reversed_ties_argsort tied_csv = Inr tied_table_reversed \<and>
   sort_values_again reversed_ties_argsort tied_table_reversed = tied_table \<and>
   tied_table \<noteq> tied_table_reversed"
proof -
  have "sort_values_again reversed_ties_argsort tied_table_reversed = tied_table"
    by (simp add: sort_values_again_def tied_table_reversed_def tied_table_def nargsort_def
        reversed_ties_argsort_def take_rows_def upt_rec numeral_nat)
  moreover have "tied_table \<noteq> tied_table_reversed"
    by (simp add: tied_table_def tied_table_reversed_def)
  ultimately show ?thesis
    using argsorts_reversed_ties load_tied by simp
qed

subsection \<open>Loading: time stamps that are not dates\<close>

lemma convert_all_eq:
  "convert_all p xs =
     (if list_ex (\<lambda>x. case x of None \<Rightarrow> False | Some y \<Rightarrow> p y = None) xs then Inl ValueError
      else Inr (map (\<lambda>x. Option.bind x p) xs))"
  by (induction p xs rule: convert_all.induct) (auto split: option.splits)

lemma convert_listlike_eq:
  "convert_listlike conv xs = convert_all (conv (first_non_null xs)) xs"
proof (cases "List.find (\<lambda>x. x \<noteq> None) xs")
  case None
  then have a: "\<forall>x \<in> set xs. x = None" by (auto simp: find_None_iff)
  then have "\<not> list_ex (\<lambda>x. case x of None \<Rightarrow> False | Some y \<Rightarrow> p y = None) xs" for p :: "scalar \<Rightarrow> int option"
    by (auto simp: list_ex_iff)
  moreover have "map (\<lambda>x. Option.bind x p) xs = map (\<lambda>x. None) xs" for p :: "scalar \<Rightarrow> int option"
    using a by (intro map_cong) auto
  ultimately have "convert_all p xs = Inr (map (\<lambda>x. None) xs)" for p
    by (simp add: convert_all_eq)
  with None show ?thesis by (simp add: convert_listlike_def)
next
  case (Some y)
  then have "y \<noteq> None" by (auto simp: find_Some_iff)
  then obtain f where "y = Some f" by auto
  with Some show ?thesis by (simp add: convert_listlike_def first_non_null_def)
qed

lemma list_ex_map: "list_ex P (map f xs) = list_ex (\<lambda>x. P (f x)) xs"
  by (induction xs) simp_all

lemma fails_string_elements:
  "list_ex (\<lambda>x. case x of None \<Rightarrow> False | Some y \<Rightarrow> conv (first_non_null (string_elements cells)) y = None)
     (string_elements cells) \<longleftrightarrow>
   list_ex (unconvertible conv cells) cells"
proof -
  define p where "p = conv (first_non_null (string_elements cells))"
  have k: "(case (if is_nat c then None else map_option Str c) of None \<Rightarrow> False
            | Some y \<Rightarrow> p y = None) \<longleftrightarrow> unconvertible conv cells c" for c
    by (cases c) (simp_all add: unconvertible_def is_nat_def p_def)
  have "list_ex (\<lambda>x. case x of None \<Rightarrow> False | Some y \<Rightarrow> p y = None) (string_elements cells) =
        list_ex (\<lambda>c. case (if is_nat c then None else map_option Str c) of None \<Rightarrow> False
                       | Some y \<Rightarrow> p y = None) cells"
    by (simp only: string_elements_def list_ex_map)
  also have "\<dots> = list_ex (unconvertible conv cells) cells"
    by (simp only: k)
  finally show ?thesis by (simp only: p_def)
qed

lemma nans_string_elements:
  assumes "\<not> list_ex (unconvertible conv cells) cells"
  shows "length (filter (\<lambda>t. t = None)
           (map (\<lambda>x. Option.bind x (conv (first_non_null (string_elements cells))))
              (string_elements cells))) =
         length (filter is_nat cells)"
proof -
  let ?p = "conv (first_non_null (string_elements cells))"
  have "(Option.bind (if is_nat c then None else map_option Str c) ?p = None) \<longleftrightarrow> is_nat c"
    if "c \<in> set cells" for c
  proof (cases "is_nat c")
    case True
    then show ?thesis by simp
  next
    case False
    then obtain s where c: "c = Some s" by (cases c) (auto simp: is_nat_def)
    from assms that have "\<not> unconvertible conv cells c" by (auto simp: list_ex_iff)
    with False c have "?p (Str s) \<noteq> None" by (simp add: unconvertible_def)
    with False c show ?thesis by simp
  qed
  then have "filter (\<lambda>c. Option.bind (if is_nat c then None else map_option Str c) ?p = None) cells =
             filter is_nat cells"
    by (intro filter_cong) auto
  then show ?thesis
    by (simp add: string_elements_def filter_map comp_def)
qed

text \<open>
  C7, as the code has it. When the time stamp column holds strings: if some cell is
  neither missing nor a \<^verbatim>\<open>NaT\<close> marker and cannot be converted, \<^verbatim>\<open>load_data\<close> fails
  with a \<^verbatim>\<open>ValueError\<close> and returns no table. Otherwise it returns a table that has
  every row of the file, and as many rows without a time stamp as the file has cells
  that are missing, empty or a \<^verbatim>\<open>NaT\<close> marker: such rows are neither rejected nor
  dropped.
\<close>

theorem load_data_timestamps:
  assumes "argsorts kind"
    and "getitem (rename [(''Timestamp'', ''DateTime'')] csv) ''DateTime'' = Inr (Series (Object cells))"
  shows "(list_ex (unconvertible conv cells) cells \<longrightarrow> load_data conv kind csv = Inl ValueError) \<and>
         (\<not> list_ex (unconvertible conv cells) cells \<longrightarrow>
            (\<exists>df ts. load_data conv kind csv = Inr df \<and> index df = DatetimeIndex ts \<and>
                     len df = length cells \<and>
                     length (filter (\<lambda>t. t = None) ts) = length (filter is_nat cells)))"
proof (intro conjI impI)
  let ?p = "conv (first_non_null (string_elements cells))"
  have t: "to_datetime conv (Series (Object cells)) = convert_all ?p (string_elements cells)"
    by (simp add: convert_listlike_eq)
  {
    assume "list_ex (unconvertible conv cells) cells"
    then have "to_datetime conv (Series (Object cells)) = Inl ValueError"
      unfolding t convert_all_eq by (simp only: fails_string_elements if_True)
    with assms(2) show "load_data conv kind csv = Inl ValueError"
      by (simp add: load_data_def)
  }
  {
    assume n: "\<not> list_ex (unconvertible conv cells) cells"
    define ts where "ts = map (\<lambda>x. Option.bind x ?p) (string_elements cells)"
    define df where "df = rename column_names
        (assign_sort_set_index kind ''DateTime'' ts (rename [(''Timestamp'', ''DateTime'')] csv))"
    define ts' where "ts' = map (\<lambda>i. ts ! i) (nargsort kind ts)"
    from n have "to_datetime conv (Series (Object cells)) = Inr ts"
      unfolding t convert_all_eq ts_def by (simp only: fails_string_elements if_False)
    with assms(2) have l: "load_data conv kind csv = Inr df"
      by (simp add: load_data_def df_def)
    have i: "index df = DatetimeIndex ts'"
      by (simp add: df_def ts'_def index_rename index_assign_sort_set_index)
    have lt: "length ts = length cells" by (simp add: ts_def string_elements_def)
    have "length ts' = length ts" by (simp add: ts'_def length_nargsort [OF assms(1)])
    with i lt have ld: "len df = length cells" by (simp add: len_def)
    have "length (filter (\<lambda>t. t = None) ts') = length (filter (\<lambda>t. t = None) ts)"
      unfolding ts'_def take_nargsort [OF assms(1)] by (simp add: filter_map comp_def)
    also have "\<dots> = length (filter is_nat cells)"
      unfolding ts_def by (rule nans_string_elements [OF n])
    finally have "length (filter (\<lambda>t. t = None) ts') = length (filter is_nat cells)" .
    with l i ld show "\<exists>df ts. load_data conv kind csv = Inr df \<and> index df = DatetimeIndex ts \<and>
                     len df = length cells \<and>
                     length (filter (\<lambda>t. t = None) ts) = length (filter is_nat cells)"
      by blast
  }
qed

lemma load_nat: "load_data example_conv insertion_argsort nat_csv = Inr nat_table"
  by (simp add: load_data_def nat_csv_def nat_table_def rename_def getitem_def
      convert_listlike_def string_elements_def is_nat_def nat_strings_def
      assign_sort_set_index_def nargsort_def insertion_argsort_def column_names_def
      take_rows_def example_conv_def upt_rec)

text \<open>
  The theorem at two files: one whose second row has the time stamp \<^verbatim>\<open>not-a-date\<close>,
  which is refused, and one with a \<^verbatim>\<open>NaT\<close> marker and a missing time stamp, which is
  loaded with its four rows.
\<close>

theorem load_data_timestamps_witness:
  "load_data example_conv insertion_argsort not_a_date_csv = Inl ValueError \<and>
   (\<exists>df ts. load_data example_conv insertion_argsort nat_csv = Inr df \<and>
            index df = DatetimeIndex ts \<and> len df = 4 \<and>
            length (filter (\<lambda>t. t = None) ts) = 2)"
proof -
  let ?bad = "[Some ''2024-01-01 02:15:00'', Some ''not-a-date'', Some ''2024-01-01 00:30:00'']"
  let ?nat = "[Some ''2024-01-01 02:15:00'', Some ''NaT'', None, Some ''2024-01-01 00:30:00'']"
  have g1: "getitem (rename [(''Timestamp'', ''DateTime'')] not_a_date_csv) ''DateTime'' =
        Inr (Series (Object ?bad))"
    by (simp add: getitem_def rename_def not_a_date_csv_def)
  have g2: "getitem (rename [(''Timestamp'', ''DateTime'')] nat_csv) ''DateTime'' =
        Inr (Series (Object ?nat))"
    by (simp add: getitem_def rename_def nat_csv_def)
  have u1: "list_ex (unconvertible example_conv ?bad) ?bad"
    by (simp add: unconvertible_def is_nat_def nat_strings_def example_conv_def)
  have u2: "\<not> list_ex (unconvertible example_conv ?nat) ?nat"
    by (simp add: unconvertible_def is_nat_def nat_strings_def example_conv_def)
  have f: "length (filter is_nat ?nat) = 2" "length ?nat = 4"
    by (simp_all add: is_nat_def nat_strings_def)
  from load_data_timestamps [where conv = example_conv, OF argsorts_insertion g1] u1
  have 1: "load_data example_conv insertion_argsort not_a_date_csv = Inl ValueError" by blast
  from load_data_timestamps [where conv = example_conv, OF argsorts_insertion g2] u2
  have "\<exists>df ts. load_data example_conv insertion_argsort nat_csv = Inr df \<and>
            index df = DatetimeIndex ts \<and> len df = length ?nat \<and>
            length (filter (\<lambda>t. t = None) ts) = length (filter is_nat ?nat)"
    by blast
  then have 2: "\<exists>df ts. load_data example_conv insertion_argsort nat_csv = Inr df \<and>
            index df = DatetimeIndex ts \<and> len df = 4 \<and>
            length (filter (\<lambda>t. t = None) ts) = 2"
    by (simp only: f)
  from 1 2 show ?thesis by blast
qed

text \<open>
  C7 as the specification states it fails. The time stamp of the second row is the
  string \<^verbatim>\<open>NaT\<close> and that of the third is missing; neither is a date-time, and the table
  is returned, with all four rows, these two last.
\<close>

theorem load_data_timestamps_counterexample:
  "is_nat (Some ''NaT'') \<and> is_nat None \<and>
   load_data example_conv insertion_argsort nat_csv = Inr nat_table \<and> len nat_table = 4"
  using load_nat by (simp add: is_nat_def nat_strings_def nat_table_def len_def)

subsection \<open>The percentage of optimal conditions\<close>

lemma count_true_le: "count_true bs \<le> length bs"
  by (simp add: count_true_def)

lemma count_true_all: "count_true bs = length bs \<longleftrightarrow> list_all (\<lambda>b. b) bs"
  unfolding count_true_def list_all_iff
  using length_filter_less [of _ bs "\<lambda>b. b"]
  by (auto simp: filter_id_conv) (metis less_irrefl)

lemma count_true_none: "count_true bs = 0 \<longleftrightarrow> list_all (\<lambda>b. \<not> b) bs"
  by (simp add: count_true_def list_all_iff filter_empty_conv)

lemma sum_list_flags:
  "list_all (\<lambda>x. x = 0 \<or> x = 1) xs \<Longrightarrow> sum_list xs = real (count_true (map (\<lambda>x. x = 1) xs))"
  by (induction xs) (auto simp: count_true_def)

lemma flags_length: "flags c = Some bs \<Longrightarrow> length bs = col_length c"
  by (cases c) (auto split: if_splits)

lemma sum_over_len_pct_flags:
  assumes "flags c = Some bs" and "0 < n"
  shows "sum_over_len_pct c n = Inr (Val (real (count_true bs) / real n * 100))"
proof (cases c)
  case (Float64 xs)
  with assms(1) have "list_all (\<lambda>x. x = 0 \<or> x = 1) xs" "bs = map (\<lambda>x. x = 1) xs"
    by (auto split: if_splits)
  with Float64 assms(2) show ?thesis
    by (simp add: np_divide_def sum_list_flags)
next
  case (Boolean bs')
  with assms show ?thesis by (simp add: np_divide_def)
next
  case (Object ss)
  with assms show ?thesis by simp
qed

text \<open>
  C5. For a table with at least one row whose optimal-conditions column is a flag, the
  percentage is the number of rows with a true flag over the number of rows, times 100;
  it lies between 0 and 100, is 100 exactly when every row has the flag true, and is 0
  exactly when no row has.
\<close>

theorem optimal_pct_nonempty:
  assumes "well_formed df" and "0 < len df"
    and "getitem df ''Optimal_Conditions'' = Inr (Series c)"
    and "flags c = Some bs"
  shows "\<exists>p. optimal_pct df = Inr (Val p) \<and>
             p = real (count_true bs) / real (len df) * 100 \<and>
             length bs = len df \<and>
             0 \<le> p \<and> p \<le> 100 \<and>
             (p = 100 \<longleftrightarrow> list_all (\<lambda>b. b) bs) \<and>
             (p = 0 \<longleftrightarrow> list_all (\<lambda>b. \<not> b) bs)"
proof -
  define n where "n = len df"
  define k where "k = count_true bs"
  define p where "p = real k / real n * 100"
  have n: "0 < n" using assms(2) by (simp add: n_def)
  have l: "length bs = n"
    using flags_length [OF assms(4)] well_formed_Series [OF assms(1,3)] by (simp add: n_def)
  have kn: "k \<le> n" using count_true_le [of bs] l by (simp add: k_def)
  have "optimal_pct df = Inr (Val p)"
    using assms(3) sum_over_len_pct_flags [OF assms(4) assms(2)]
    by (simp add: optimal_pct_def p_def k_def n_def)
  moreover have "0 \<le> p" by (simp add: p_def)
  moreover have "p \<le> 100" using kn n by (simp add: p_def field_simps)
  moreover have "p = 100 \<longleftrightarrow> real k = real n" using n by (simp add: p_def field_simps)
  then have "p = 100 \<longleftrightarrow> k = n" by simp
  then have "p = 100 \<longleftrightarrow> list_all (\<lambda>b. b) bs"
    using count_true_all [of bs] l by (simp add: k_def)
  moreover have "p = 0 \<longleftrightarrow> k = 0" using n by (simp add: p_def)
  then have "p = 0 \<longleftrightarrow> list_all (\<lambda>b. \<not> b) bs"
    using count_true_none [of bs] by (simp add: k_def)
  ultimately show ?thesis using l by (auto simp: p_def k_def n_def)
qed

text \<open>The theorem at a table of five rows, three of them with the flag true: 60.\<close>

theorem optimal_pct_nonempty_witness:
  "optimal_pct five_row_table = Inr (Val 60)"
proof -
  have "well_formed five_row_table" "0 < len five_row_table"
    "getitem five_row_table ''Optimal_Conditions'' = Inr (Series (Boolean [True, False, True, True, False]))"
    "flags (Boolean [True, False, True, True, False]) = Some [True, False, True, True, False]"
    by (simp_all add: well_formed_def five_row_table_def len_def getitem_def)
  from optimal_pct_nonempty [OF this] show ?thesis
    by (auto simp: count_true_def len_def five_row_table_def)
qed

subsection \<open>The alerts and the specification's percentile\<close>

lemma alert_count_Float64:
  assumes "getitem df name = Inr (Series (Float64 xs))"
  shows "alert_count cmp (95 / 100) df name =
           Inr (length (filter (\<lambda>x. cmp x (if xs = [] then NaN else Val (percentile_linear xs (95 / 100)))) xs))"
    and "alert_count cmp (5 / 100) df name =
           Inr (length (filter (\<lambda>x. cmp x (if xs = [] then NaN else Val (percentile_linear xs (5 / 100)))) xs))"
  using assms by (simp_all add: alert_count_def)

lemma percentile_linear_spec:
  assumes "xs \<noteq> []" and "0 \<le> q" and "q \<le> 1"
  shows "percentile_linear xs q = spec_percentile xs q"
proof -
  define n where "n = length xs"
  define pos where "pos = q * real (n - 1)"
  define s where "s = sort xs"
  have n: "0 < n" using assms(1) by (simp add: n_def)
  have pos0: "0 \<le> pos" using assms(2) by (simp add: pos_def)
  have posn: "pos \<le> real (n - 1)"
    using assms(2,3) by (simp add: pos_def mult_left_le_one_le)
  have "real (n - 1) = real n - 1" using n by (simp add: of_nat_diff)
  then have h: "(real (length xs) - 1) * q + 1 = pos + 1"
    by (simp add: pos_def n_def mult.commute)
  have fl0: "0 \<le> \<lfloor>pos\<rfloor>" using pos0 by simp
  have fl: "\<lfloor>pos + 1\<rfloor> = \<lfloor>pos\<rfloor> + 1" by simp
  have ce: "\<lceil>pos + 1\<rceil> = \<lceil>pos\<rceil> + 1" by simp
  have prev: "nat \<lfloor>pos + 1\<rfloor> - 1 = nat \<lfloor>pos\<rfloor>"
    using fl0 by (simp add: fl nat_add_distrib)
  have gam: "pos - real (nat \<lfloor>pos\<rfloor>) = pos + 1 - real_of_int \<lfloor>pos + 1\<rfloor>"
    using fl0 by (simp add: fl)
  have ce0: "0 \<le> \<lceil>pos\<rceil>" using pos0 by (simp add: ceiling_le_iff le_ceiling_iff)
  have nxt: "nat \<lceil>pos + 1\<rceil> - 1 = nat \<lceil>pos\<rceil>"
    using ce0 by (simp add: ce nat_add_distrib)
  have pl: "percentile_linear xs q =
      s ! nat \<lfloor>pos\<rfloor> + (s ! min (nat \<lfloor>pos\<rfloor> + 1) (n - 1) - s ! nat \<lfloor>pos\<rfloor>) * (pos - real (nat \<lfloor>pos\<rfloor>))"
    by (simp add: percentile_linear_def Let_def s_def n_def pos_def)
  have sp: "spec_percentile xs q =
      s ! nat \<lfloor>pos\<rfloor> + (pos - real (nat \<lfloor>pos\<rfloor>)) * (s ! nat \<lceil>pos\<rceil> - s ! nat \<lfloor>pos\<rfloor>)"
    unfolding spec_percentile_def Let_def order_statistic_def h prev nxt s_def [symmetric]
    using gam by simp
  show ?thesis
  proof (cases "pos = real_of_int \<lfloor>pos\<rfloor>")
    case True
    then have "pos - real (nat \<lfloor>pos\<rfloor>) = 0" using fl0 by simp
    then show ?thesis by (simp add: pl sp)
  next
    case False
    then have c: "\<lceil>pos\<rceil> = \<lfloor>pos\<rfloor> + 1"
      by (metis ceiling_altdef of_int_floor_cancel)
    have "pos < real (n - 1)"
    proof (rule ccontr)
      assume "\<not> pos < real (n - 1)"
      with posn have "pos = real (n - 1)" by simp
      then have "pos = real_of_int \<lfloor>pos\<rfloor>" by simp
      with False show False by simp
    qed
    then have "\<lfloor>pos\<rfloor> < int (n - 1)" by (simp add: floor_less_iff)
    then have "nat \<lfloor>pos\<rfloor> + 1 \<le> n - 1" using fl0 by linarith
    then have m: "min (nat \<lfloor>pos\<rfloor> + 1) (n - 1) = nat \<lfloor>pos\<rfloor> + 1" by simp
    have "nat \<lceil>pos\<rceil> = nat \<lfloor>pos\<rfloor> + 1" using c fl0 by (simp add: nat_add_distrib)
    with m show ?thesis by (simp add: pl sp mult.commute)
  qed
qed

text \<open>
  C2. For a table whose three monitored columns are numeric, \<^verbatim>\<open>alert_conditions\<close>
  returns exactly the three counts of the specification: the rows whose vibration level
  is above the 95th percentile of the vibration levels of the same table, those whose
  quality score is below the 5th percentile of the quality scores, and those whose
  energy consumption is above the 95th percentile of the energy consumptions; each
  percentile is the interpolated one and a function of the table passed.
\<close>

theorem alert_conditions_refines_spec:
  assumes "getitem df ''Vibration_Level'' = Inr (Series (Float64 vibration_level))"
    and "getitem df ''Production_Quality_Score'' = Inr (Series (Float64 production_quality_score))"
    and "getitem df ''Energy_Consumption'' = Inr (Series (Float64 energy_consumption))"
  shows "alert_conditions df =
           Inr (spec_alert_summary vibration_level production_quality_score energy_consumption)"
proof -
  have g: "length (filter (\<lambda>x. gt x (if xs = [] then NaN else Val (percentile_linear xs (95 / 100)))) xs) =
           length (filter (\<lambda>x. spec_percentile xs (95 / 100) < x) xs)" for xs
  proof (cases "xs = []")
    case True
    then show ?thesis by simp
  next
    case False
    then show ?thesis using percentile_linear_spec [of xs "95 / 100"] by simp
  qed
  have l: "length (filter (\<lambda>x. lt x (if xs = [] then NaN else Val (percentile_linear xs (5 / 100)))) xs) =
           length (filter (\<lambda>x. x < spec_percentile xs (5 / 100)) xs)" for xs
  proof (cases "xs = []")
    case True
    then show ?thesis by simp
  next
    case False
    then show ?thesis using percentile_linear_spec [of xs "5 / 100"] by simp
  qed
  show ?thesis
    unfolding alert_conditions_def spec_alert_summary_def
      alert_count_Float64(1) [OF assms(1)] alert_count_Float64(2) [OF assms(2)]
      alert_count_Float64(1) [OF assms(3)]
    by (simp only: g l sum.case)
qed

text \<open>
  The theorem at a table of five rows: the thresholds are 4.6 for vibration and 4.6 for
  quality, one row is above the first and one below the second; the energy is constant.
\<close>

theorem alert_conditions_refines_spec_witness:
  "alert_conditions five_row_table =
     Inr [(''High Vibration'', 1), (''Low Quality'', 1), (''High Energy'', 0)]"
proof -
  have g: "getitem five_row_table ''Vibration_Level'' = Inr (Series (Float64 [2, 1, 3, 2, 5]))"
    "getitem five_row_table ''Production_Quality_Score'' = Inr (Series (Float64 [8, 9, 7, 4, 8]))"
    "getitem five_row_table ''Energy_Consumption'' = Inr (Series (Float64 [2, 2, 2, 2, 2]))"
    by (simp_all add: getitem_def five_row_table_def)
  have f: "\<lfloor>24 / 5 :: real\<rfloor> = 4" "\<lceil>24 / 5 :: real\<rceil> = 5" "\<lfloor>6 / 5 :: real\<rfloor> = 1" "\<lceil>6 / 5 :: real\<rceil> = 2"
    by (simp_all add: ceiling_def)
  from alert_conditions_refines_spec [OF g] show ?thesis
    by (simp add: spec_alert_summary_def spec_percentile_def order_statistic_def f)
qed

subsection \<open>A constant column raises no alert\<close>

lemma virtual_index_in_range:
  assumes "xs \<noteq> []" and "0 \<le> q" and "q \<le> 1"
  shows "nat \<lfloor>q * real (length xs - 1)\<rfloor> < length xs"
proof -
  have "q * real (length xs - 1) \<le> real (length xs - 1)"
    using assms(2,3) by (simp add: mult_left_le_one_le)
  then have "\<lfloor>q * real (length xs - 1)\<rfloor> \<le> int (length xs - 1)"
    by (simp add: floor_le_iff)
  moreover have "length xs - 1 < length xs" using assms(1) by simp
  ultimately show ?thesis by linarith
qed

lemma percentile_linear_constant:
  assumes "xs \<noteq> []" and "\<forall>x \<in> set xs. x = c" and "0 \<le> q" and "q \<le> 1"
  shows "percentile_linear xs q = c"
proof -
  let ?s = "sort xs"
  let ?prev = "nat \<lfloor>q * real (length xs - 1)\<rfloor>"
  let ?next = "min (?prev + 1) (length xs - 1)"
  have p: "?prev < length ?s"
    using virtual_index_in_range [OF assms(1,3,4)] by (simp only: length_sort)
  have "0 < length xs" using assms(1) by simp
  then have "?next < length xs" by (simp add: min_less_iff_disj)
  then have n: "?next < length ?s" by (simp only: length_sort)
  from nth_mem [OF p] have "?s ! ?prev \<in> set xs" by (simp only: set_sort)
  with assms(2) have a: "?s ! ?prev = c" by blast
  from nth_mem [OF n] have "?s ! ?next \<in> set xs" by (simp only: set_sort)
  with assms(2) have b: "?s ! ?next = c" by blast
  show ?thesis unfolding percentile_linear_def Let_def a b by simp
qed

lemma count_constant:
  assumes "\<forall>x \<in> set xs. x = hd xs"
  shows "length (filter (\<lambda>x. gt x (if xs = [] then NaN else Val (percentile_linear xs (95 / 100)))) xs) = 0"
    and "length (filter (\<lambda>x. lt x (if xs = [] then NaN else Val (percentile_linear xs (5 / 100)))) xs) = 0"
proof -
  have "percentile_linear xs (95 / 100) = hd xs" "percentile_linear xs (5 / 100) = hd xs" if "xs \<noteq> []"
    using percentile_linear_constant [OF that assms] by simp_all
  with assms show
    "length (filter (\<lambda>x. gt x (if xs = [] then NaN else Val (percentile_linear xs (95 / 100)))) xs) = 0"
    "length (filter (\<lambda>x. lt x (if xs = [] then NaN else Val (percentile_linear xs (5 / 100)))) xs) = 0"
    by (auto simp: filter_empty_conv)
qed

text \<open>
  C10. When the three monitored columns are numeric, the three counts are returned, and
  for each column that is constant across all rows the count is 0 and its banner is the
  success banner; the percentile of a constant column with at least one row is that
  constant, and the comparisons are strict.
\<close>

theorem alert_constant_column:
  assumes "getitem df ''Vibration_Level'' = Inr (Series (Float64 vs))"
    and "getitem df ''Production_Quality_Score'' = Inr (Series (Float64 qs))"
    and "getitem df ''Energy_Consumption'' = Inr (Series (Float64 es))"
  shows "\<exists>v q e.
           alert_conditions df = Inr [(''High Vibration'', v), (''Low Quality'', q), (''High Energy'', e)] \<and>
           ((\<forall>x \<in> set vs. x = hd vs) \<longrightarrow>
              v = 0 \<and> alert_banner (''High Vibration'', v) = st_success ''High Vibration'' \<and>
              (vs \<noteq> [] \<longrightarrow> quantile (Float64 vs) (95 / 100) = Inr (Val (hd vs)))) \<and>
           ((\<forall>x \<in> set qs. x = hd qs) \<longrightarrow>
              q = 0 \<and> alert_banner (''Low Quality'', q) = st_success ''Low Quality'' \<and>
              (qs \<noteq> [] \<longrightarrow> quantile (Float64 qs) (5 / 100) = Inr (Val (hd qs)))) \<and>
           ((\<forall>x \<in> set es. x = hd es) \<longrightarrow>
              e = 0 \<and> alert_banner (''High Energy'', e) = st_success ''High Energy'' \<and>
              (es \<noteq> [] \<longrightarrow> quantile (Float64 es) (95 / 100) = Inr (Val (hd es))))"
proof -
  let ?v = "length (filter (\<lambda>x. gt x (if vs = [] then NaN else Val (percentile_linear vs (95 / 100)))) vs)"
  let ?q = "length (filter (\<lambda>x. lt x (if qs = [] then NaN else Val (percentile_linear qs (5 / 100)))) qs)"
  let ?e = "length (filter (\<lambda>x. gt x (if es = [] then NaN else Val (percentile_linear es (95 / 100)))) es)"
  have a: "alert_conditions df = Inr [(''High Vibration'', ?v), (''Low Quality'', ?q), (''High Energy'', ?e)]"
    unfolding alert_conditions_def
      alert_count_Float64(1) [OF assms(1)] alert_count_Float64(2) [OF assms(2)]
      alert_count_Float64(1) [OF assms(3)]
    by (simp only: sum.case)
  have v: "?v = 0 \<and> alert_banner (''High Vibration'', ?v) = st_success ''High Vibration'' \<and>
           (vs \<noteq> [] \<longrightarrow> quantile (Float64 vs) (95 / 100) = Inr (Val (hd vs)))"
    if c: "\<forall>x \<in> set vs. x = hd vs"
    using count_constant(1) [OF c] percentile_linear_constant [of vs "hd vs" "95 / 100"] c
    by (simp add: alert_banner_def)
  have q: "?q = 0 \<and> alert_banner (''Low Quality'', ?q) = st_success ''Low Quality'' \<and>
           (qs \<noteq> [] \<longrightarrow> quantile (Float64 qs) (5 / 100) = Inr (Val (hd qs)))"
    if c: "\<forall>x \<in> set qs. x = hd qs"
    using count_constant(2) [OF c] percentile_linear_constant [of qs "hd qs" "5 / 100"] c
    by (simp add: alert_banner_def)
  have e: "?e = 0 \<and> alert_banner (''High Energy'', ?e) = st_success ''High Energy'' \<and>
           (es \<noteq> [] \<longrightarrow> quantile (Float64 es) (95 / 100) = Inr (Val (hd es)))"
    if c: "\<forall>x \<in> set es. x = hd es"
    using count_constant(1) [OF c] percentile_linear_constant [of es "hd es" "95 / 100"] c
    by (simp add: alert_banner_def)
  from a v q e show ?thesis by blast
qed

text \<open>The theorem at a table of three rows with three constant columns.\<close>

theorem alert_constant_column_witness:
  "alert_conditions constant_table =
     Inr [(''High Vibration'', 0), (''Low Quality'', 0), (''High Energy'', 0)] \<and>
   map alert_banner [(''High Vibration'', 0), (''Low Quality'', 0), (''High Energy'', 0)] =
     [st_success ''High Vibration'', st_success ''Low Quality'', st_success ''High Energy''] \<and>
   quantile (Float64 [3, 3, 3]) (95 / 100) = Inr (Val 3)"
proof -
  have g: "getitem constant_table ''Vibration_Level'' = Inr (Series (Float64 [3, 3, 3]))"
    "getitem constant_table ''Production_Quality_Score'' = Inr (Series (Float64 [8, 8, 8]))"
    "getitem constant_table ''Energy_Consumption'' = Inr (Series (Float64 [2, 2, 2]))"
    by (simp_all add: getitem_def constant_table_def)
  from alert_constant_column [OF g] show ?thesis by (auto simp: alert_banner_def)
qed

subsection \<open>One outlier among a hundred rows\<close>

lemma filter_two:
  assumes "i < j" and "j < length s" and "P (s ! i)" and "P (s ! j)"
  shows "2 \<le> length (filter P s)"
proof -
  have s: "s = take j s @ s ! j # drop (Suc j) s"
    using assms(2) by (rule id_take_nth_drop)
  have "s ! i \<in> set (take j s)"
    using assms(1,2) by (auto simp: in_set_conv_nth intro!: exI [of _ i])
  with assms(3) have "filter P (take j s) \<noteq> []"
    by (auto simp: filter_empty_conv)
  then have "1 \<le> length (filter P (take j s))"
    by (cases "filter P (take j s)") auto
  moreover have "length (filter P s) =
      length (filter P (take j s)) + length (filter P (s ! j # drop (Suc j) s))"
    by (subst s) simp
  ultimately show ?thesis using assms(4) by simp
qed

lemma length_filter_sort: "length (filter P (sort xs)) = length (filter P xs)"
  by (simp add: filter_sort)

lemma sorted_below_outlier:
  fixes xs :: "real list"
  assumes "length xs = 100"
    and "length (filter (\<lambda>x. x = 1000) xs) = 1"
    and "list_all (\<lambda>x. x = 1000 \<or> 0 \<le> x \<and> x \<le> 10) xs"
    and "i \<le> 98"
  shows "sort xs ! i \<le> 10"
proof (rule ccontr)
  assume n: "\<not> sort xs ! i \<le> 10"
  let ?s = "sort xs"
  have len: "length ?s = 100" using assms(1) by simp
  have all: "x = 1000 \<or> 0 \<le> x \<and> x \<le> 10" if "x \<in> set ?s" for x
    using assms(3) that by (simp add: list_all_iff)
  have i: "i < length ?s" and si: "Suc i < length ?s" using assms(4) len by simp_all
  have a: "?s ! i = 1000" using all [OF nth_mem [OF i]] n by auto
  have "?s ! i \<le> ?s ! Suc i"
    using sorted_nth_mono [of ?s i "Suc i"] si by simp
  with a have "\<not> ?s ! Suc i \<le> 10" by simp
  then have b: "?s ! Suc i = 1000" using all [OF nth_mem [OF si]] by auto
  have "2 \<le> length (filter (\<lambda>x. x = 1000) ?s)"
    using filter_two [of i "Suc i" ?s "\<lambda>x. x = 1000"] si a b by simp
  then show False using assms(2) by (simp add: length_filter_sort)
qed

text \<open>
  C9. For a table of 100 rows whose vibration levels lie between 0 and 10 except for
  one row with the level 1000, the 95th percentile that \<^verbatim>\<open>alert_conditions\<close> compares
  with is below 1000, and the count of high vibration is at least 1.
\<close>

theorem alert_outlier:
  assumes "getitem df ''Vibration_Level'' = Inr (Series (Float64 vs))"
    and "getitem df ''Production_Quality_Score'' = Inr (Series (Float64 qs))"
    and "getitem df ''Energy_Consumption'' = Inr (Series (Float64 es))"
    and "length vs = 100"
    and "length (filter (\<lambda>x. x = 1000) vs) = 1"
    and "list_all (\<lambda>x. x = 1000 \<or> 0 \<le> x \<and> x \<le> 10) vs"
  shows "\<exists>t v q e.
           quantile (Float64 vs) (95 / 100) = Inr (Val t) \<and> t < 1000 \<and>
           alert_conditions df = Inr [(''High Vibration'', v), (''Low Quality'', q), (''High Energy'', e)] \<and>
           1 \<le> v"
proof -
  define t where "t = percentile_linear vs (95 / 100)"
  let ?s = "sort vs"
  have ne: "vs \<noteq> []" using assms(4) by auto
  have "(95 / 100 :: real) * real (length vs - 1) = 9405 / 100" using assms(4) by simp
  moreover have "\<lfloor>9405 / 100 :: real\<rfloor> = 94" by simp
  ultimately have t: "t = ?s ! 94 + (?s ! 95 - ?s ! 94) * (5 / 100)"
    using assms(4) by (simp add: t_def percentile_linear_def Let_def)
  have "?s ! 94 \<le> 10" "?s ! 95 \<le> 10"
    using sorted_below_outlier [OF assms(4,5,6)] by simp_all
  with t have t10: "t \<le> 10" by (simp add: algebra_simps)
  have q: "quantile (Float64 vs) (95 / 100) = Inr (Val t)"
    using ne by (simp add: t_def)
  let ?v = "length (filter (\<lambda>x. gt x (if vs = [] then NaN else Val (percentile_linear vs (95 / 100)))) vs)"
  let ?q = "length (filter (\<lambda>x. lt x (if qs = [] then NaN else Val (percentile_linear qs (5 / 100)))) qs)"
  let ?e = "length (filter (\<lambda>x. gt x (if es = [] then NaN else Val (percentile_linear es (95 / 100)))) es)"
  have a: "alert_conditions df = Inr [(''High Vibration'', ?v), (''Low Quality'', ?q), (''High Energy'', ?e)]"
    unfolding alert_conditions_def
      alert_count_Float64(1) [OF assms(1)] alert_count_Float64(2) [OF assms(2)]
      alert_count_Float64(1) [OF assms(3)]
    by (simp only: sum.case)
  have "filter (\<lambda>x. x = 1000) vs \<noteq> []" using assms(5) by auto
  then have "1000 \<in> set vs" by (auto simp: filter_empty_conv)
  then have "filter (\<lambda>x. gt x (Val t)) vs \<noteq> []"
    using t10 by (auto simp: filter_empty_conv intro!: bexI [of _ 1000])
  then have "1 \<le> ?v"
    using ne by (cases "filter (\<lambda>x. gt x (Val t)) vs") (auto simp: t_def)
  with q a t10 show ?thesis by (intro exI [of _ t] exI [of _ ?v] exI [of _ ?q] exI [of _ ?e]) simp
qed

text \<open>The theorem at the table of 100 rows with the levels 0.0 to 9.8 and one 1000.\<close>

theorem alert_outlier_witness:
  "length outlier_column = 100 \<and> 
   length (filter (\<lambda>x. x = 1000) outlier_column) = 1 \<and>
   list_all (\<lambda>x. x = 1000 \<or> 0 \<le> x \<and> x \<le> 10) outlier_column \<and>
   (\<exists>t v q e.
      quantile (Float64 outlier_column) (95 / 100) = Inr (Val t) \<and> t < 1000 \<and>
      alert_conditions outlier_table =
        Inr [(''High Vibration'', v), (''Low Quality'', q), (''High Energy'', e)] \<and>
      1 \<le> v)"
proof -
  have g: "getitem outlier_table ''Vibration_Level'' = Inr (Series (Float64 outlier_column))"
    "getitem outlier_table ''Production_Quality_Score'' = Inr (Series (Float64 (replicate 100 8)))"
    "getitem outlier_table ''Energy_Consumption'' = Inr (Series (Float64 (replicate 100 2)))"
    by (simp_all add: getitem_def outlier_table_def)
  have l: "length outlier_column = 100" by (simp add: outlier_column_def)
  have "filter (\<lambda>x. x = 1000) (map (\<lambda>k. real k / 10) [0..<99]) = []"
    by (auto simp: filter_empty_conv)
  then have c: "length (filter (\<lambda>x. x = 1000) outlier_column) = 1"
    by (simp add: outlier_column_def)
  have a: "list_all (\<lambda>x. x = 1000 \<or> 0 \<le> x \<and> x \<le> 10) outlier_column"
    by (auto simp: outlier_column_def list_all_iff)
  from alert_outlier [OF g l c a] l c a show ?thesis by blast
qed

subsection \<open>The hourly bins\<close>





lemma stamps_map_Some: "stamps (map Some ts) = ts"
  by (simp add: stamps_def filter_map comp_def)




lemma Min_two: "Min (set [1704069000000000000, 1704075300000000000 :: int]) = 1704069000000000000"
  by simp

lemma Max_two: "Max (set [1704069000000000000, 1704075300000000000 :: int]) = 1704075300000000000"
  by simp

lemma bin_labels_two:
  "bin_labels [1704069000000000000, 1704075300000000000] =
     [1704067200000000000, 1704070800000000000, 1704074400000000000]"
  unfolding bin_labels_def bin_edges_def Min_two Max_two
  by (simp add: hour_def upt_rec)

lemma df_hourly_two_row: "df_hourly two_row_table = Inr two_row_hourly"
  by (simp add: df_hourly_def two_row_table_def two_row_hourly_def stamps_def bin_labels_two
      bin_rows_def in_bin_def bin_mean_def hour_def)



subsection \<open>A bin without rows\<close>

lemma resample_columns_mem:
  "resample_columns ts labels cols = Inr cs \<Longrightarrow> nc \<in> set cs \<Longrightarrow>
   \<exists>c. (fst nc, c) \<in> set cols \<and> resample_mean ts labels c = Inr (snd nc)"
proof (induction cols arbitrary: cs)
  case Nil
  then show ?case by simp
next
  case (Cons a cols)
  from Cons.prems(1) obtain vs rest where
    vs: "resample_mean ts labels (snd a) = Inr vs"
    and rest: "resample_columns ts labels cols = Inr rest"
    and cs: "cs = (fst a, vs) # rest"
    by (auto split: sum.splits)
  show ?case
  proof (cases "nc = (fst a, vs)")
    case True
    with vs show ?thesis by (intro exI [of _ "snd a"]) simp
  next
    case False
    with Cons.prems(2) cs have "nc \<in> set rest" by simp
    from Cons.IH [OF rest this] show ?thesis by auto
  qed
qed

lemma bin_rows_empty:
  assumes "\<forall>t \<in> set ts. \<not> in_bin lo t"
  shows "bin_rows ts xs lo = []"
  using assms unfolding bin_rows_def
  by (auto simp: filter_empty_conv dest: set_zip_leftD)

lemma resample_mean_empty_bin:
  assumes "resample_mean ts labels c = Inr vs" and "k < length labels"
    and "\<forall>t \<in> set ts. \<not> in_bin (labels ! k) t"
  shows "k < length vs \<and> vs ! k = NaN"
proof (cases c)
  case (Float64 xs)
  with assms(1,2) show ?thesis
    by (auto simp: bin_rows_empty [OF assms(3)] bin_mean_def)
next
  case (Boolean bs)
  with assms(1,2) show ?thesis
    by (auto simp: bin_rows_empty [OF assms(3)] bin_mean_def)
next
  case (Object ss)
  with assms(1) show ?thesis by simp
qed

text \<open>
  C8. In the hourly means of a table whose rows all have a time stamp, a bin in which no
  time stamp of the table lies has the value NaN in every column, which is not the
  number zero.
\<close>

theorem df_hourly_empty_bucket:
  assumes "index df = DatetimeIndex (map Some ts)" and "df_hourly df = Inr h"
    and "k < length (h_index h)"
    and "\<forall>t \<in> set ts. \<not> (h_index h ! k \<le> t \<and> t < h_index h ! k + hour)"
    and "nc \<in> set (h_columns h)"
  shows "k < length (snd nc) \<and> snd nc ! k = NaN \<and> snd nc ! k \<noteq> Val 0"
proof -
  have ne: "ts \<noteq> []"
  proof
    assume "ts = []"
    with assms(1,2) have "h_index h = []" by (auto simp: df_hourly_def)
    with assms(3) show False by simp
  qed
  with assms(1,2) obtain cs where
    cs: "resample_columns (map Some ts) (bin_labels ts) (columns df) = Inr cs"
    and h: "h = \<lparr>h_index = bin_labels ts, h_columns = cs\<rparr>"
    by (auto simp: df_hourly_def stamps_map_Some split: sum.splits)
  from assms(5) h have "nc \<in> set cs" by simp
  from resample_columns_mem [OF cs this] obtain c where
    c: "resample_mean (map Some ts) (bin_labels ts) c = Inr (snd nc)" by blast
  from assms(3,4) h have "k < length (bin_labels ts)"
    "\<forall>t \<in> set (map Some ts). \<not> in_bin (bin_labels ts ! k) t"
    by (simp_all add: in_bin_def)
  from resample_mean_empty_bin [OF c this] show ?thesis by simp
qed

text \<open>
  The theorem at the table with rows at 00:30 and 02:15: the bin of 01:00 has NaN in
  both columns.
\<close>

theorem df_hourly_empty_bucket_witness:
  "df_hourly two_row_table = Inr two_row_hourly \<and>
   h_index two_row_hourly ! 1 = 1704070800000000000 \<and>
   [Val 2, NaN, Val 4] ! 1 = NaN \<and> [Val 1, NaN, Val 0] ! 1 = NaN"
proof -
  have a: "index two_row_table = DatetimeIndex (map Some [1704069000000000000, 1704075300000000000])"
    by (simp add: two_row_table_def)
  have k: "1 < length (h_index two_row_hourly)" by (simp add: two_row_hourly_def)
  have e: "\<forall>t \<in> set [1704069000000000000, 1704075300000000000].
      \<not> (h_index two_row_hourly ! 1 \<le> t \<and> t < h_index two_row_hourly ! 1 + hour)"
    by (simp add: two_row_hourly_def hour_def)
  have m: "(''Vibration_Level'', [Val 2, NaN, Val 4]) \<in> set (h_columns two_row_hourly)"
    "(''Optimal_Conditions'', [Val 1, NaN, Val 0]) \<in> set (h_columns two_row_hourly)"
    by (simp_all add: two_row_hourly_def)
  from df_hourly_empty_bucket [OF a df_hourly_two_row k e m(1)]
    df_hourly_empty_bucket [OF a df_hourly_two_row k e m(2)] df_hourly_two_row
  show ?thesis by (simp add: two_row_hourly_def)
qed

end
